theory Spec2Isabelle
  imports Complex_Main
begin

section \<open>Numbers: float64 values with their special values\<close>

text \<open>
  Every concentration, time and rate of the estimator is a float64 held in a numpy array.
  A value is either finite, an infinity or NaN. Finite arithmetic is exact here (rounding,
  overflow and the sign of zero are not modelled); the special values follow IEEE 754, which
  is what numpy computes: division by zero gives an infinity or NaN (with a warning, never an
  exception), a comparison with NaN is false.
\<close>

datatype fval = Fin real | PInf | NInf | NaN

fun is_fin :: "fval \<Rightarrow> bool" where
  "is_fin (Fin _) = True"
| "is_fin _ = False"

fun is_nan :: "fval \<Rightarrow> bool" where
  "is_nan NaN = True"
| "is_nan _ = False"

fun fneg :: "fval \<Rightarrow> fval" where
  "fneg (Fin a) = Fin (- a)"
| "fneg PInf = NInf"
| "fneg NInf = PInf"
| "fneg NaN = NaN"

fun fadd :: "fval \<Rightarrow> fval \<Rightarrow> fval" where
  "fadd (Fin a) (Fin b) = Fin (a + b)"
| "fadd NaN _ = NaN"
| "fadd _ NaN = NaN"
| "fadd PInf NInf = NaN"
| "fadd NInf PInf = NaN"
| "fadd PInf _ = PInf"
| "fadd _ PInf = PInf"
| "fadd NInf _ = NInf"
| "fadd _ NInf = NInf"

definition fsub :: "fval \<Rightarrow> fval \<Rightarrow> fval" where
  "fsub a b = fadd a (fneg b)"

fun fabs :: "fval \<Rightarrow> fval" where
  "fabs (Fin a) = Fin \<bar>a\<bar>"
| "fabs PInf = PInf"
| "fabs NInf = PInf"
| "fabs NaN = NaN"

text \<open>The sign of an infinity after multiplying or dividing by a finite value.\<close>

definition signed_inf :: "bool \<Rightarrow> fval" where
  "signed_inf neg = (if neg then NInf else PInf)"

fun fmul :: "fval \<Rightarrow> fval \<Rightarrow> fval" where
  "fmul (Fin a) (Fin b) = Fin (a * b)"
| "fmul NaN _ = NaN"
| "fmul _ NaN = NaN"
| "fmul (Fin a) PInf = (if a = 0 then NaN else signed_inf (a < 0))"
| "fmul (Fin a) NInf = (if a = 0 then NaN else signed_inf (0 < a))"
| "fmul PInf (Fin b) = (if b = 0 then NaN else signed_inf (b < 0))"
| "fmul NInf (Fin b) = (if b = 0 then NaN else signed_inf (0 < b))"
| "fmul PInf PInf = PInf"
| "fmul NInf NInf = PInf"
| "fmul PInf NInf = NInf"
| "fmul NInf PInf = NInf"

fun fdiv :: "fval \<Rightarrow> fval \<Rightarrow> fval" where
  "fdiv (Fin a) (Fin b) =
     (if b = 0 then (if a = 0 then NaN else signed_inf (a < 0)) else Fin (a / b))"
| "fdiv NaN _ = NaN"
| "fdiv _ NaN = NaN"
| "fdiv (Fin a) PInf = Fin 0"
| "fdiv (Fin a) NInf = Fin 0"
| "fdiv PInf (Fin b) = signed_inf (b < 0)"
| "fdiv NInf (Fin b) = signed_inf (0 \<le> b)"
| "fdiv PInf PInf = NaN"
| "fdiv PInf NInf = NaN"
| "fdiv NInf PInf = NaN"
| "fdiv NInf NInf = NaN"

text \<open>\<open>a < b\<close> and \<open>a == b\<close> on floats: false whenever an operand is NaN.\<close>

fun flt :: "fval \<Rightarrow> fval \<Rightarrow> bool" where
  "flt (Fin a) (Fin b) = (a < b)"
| "flt NaN _ = False"
| "flt _ NaN = False"
| "flt _ NInf = False"
| "flt PInf _ = False"
| "flt NInf _ = True"
| "flt _ PInf = True"

fun feq :: "fval \<Rightarrow> fval \<Rightarrow> bool" where
  "feq NaN _ = False"
| "feq _ NaN = False"
| "feq a b = (a = b)"

text \<open>\<open>np.fmax\<close>: the larger operand, and the other operand when one is NaN.\<close>

fun fmax :: "fval \<Rightarrow> fval \<Rightarrow> fval" where
  "fmax NaN b = b"
| "fmax a NaN = a"
| "fmax a b = (if flt a b then b else a)"

section \<open>Errors\<close>

text \<open>
  An exception is a value. A text built by an f-string is the list of its parts: literal
  text, an interpolated value (\<open>{x}\<close>), an interpolated list, and a value under a format
  specification (\<open>Fixed n x\<close> is \<open>{x:.nf}\<close>), so that no float has to be rendered.
\<close>

datatype part = Text string | Num fval | NumList "fval list" | Fixed nat fval

datatype error =
    AttributeError "part list"
  | ValueError "part list"
  | IndexError
  | TypeError
  | ZeroDivisionError
  | KeyError string

section \<open>The experiment handed to the estimator\<close>

text \<open>
  Modelled from the spec: the classes \<open>Replica\<close>, \<open>Measurement\<close> and
  \<open>EnzymeKineticsExperiment\<close> and the enum \<open>StoichiometryTypes\<close> are imported by
  \<open>parameterestimator.py\<close> and are not part of the sources; the records hold the attributes
  the estimator reads (section 3 and 6 of the specification), the two enum values are the
  two recognised selector strings.
\<close>

record Replica =
  values_r :: "fval list"

record Measurement =
  initial_substrate_conc :: fval
  enzyme_conc :: fval
  inhibitor_conc :: "fval option"
  inhibitor_conc_unit :: string
  data_m :: "Replica list"

record EnzymeKineticsExperiment =
  stoichiometry :: string
  exp_time :: "fval list"
  measurements :: "Measurement list"
  data_conc_unit :: string
  time_unit :: string

definition SUBSTRATE_value :: string where
  "SUBSTRATE_value = ''substrate''"

definition PRODUCT_value :: string where
  "PRODUCT_value = ''product''"

section \<open>The estimator: normalisation of the measurement data\<close>

text \<open>
  The attributes \<open>_initialize_measurement_data\<close> assigns, and the two initial guesses
  \<open>__init__\<close> adds. A 2-D array is the list of its rows.
\<close>

record NormalizedData =
  data :: EnzymeKineticsExperiment
  time :: "fval list"
  initial_substrate :: "fval list"
  enzyme :: "fval list"
  inhibitor :: "fval list list"
  substrate :: "fval list list"
  product :: "fval list list"

record ParameterEstimator = NormalizedData +
  initial_kcat :: fval
  initial_Km :: fval

text \<open>
  The four lists filled by the double loop over measurements and replicas: one entry per
  replica, in the order of the loop.
\<close>

definition measurement_data_of :: "EnzymeKineticsExperiment \<Rightarrow> fval list list" where
  "measurement_data_of experiment =
     concat (map (\<lambda>measurement. map values_r (data_m measurement)) (measurements experiment))"

definition initial_substrate_of :: "EnzymeKineticsExperiment \<Rightarrow> fval list" where
  "initial_substrate_of experiment =
     concat (map (\<lambda>measurement.
        map (\<lambda>replica. initial_substrate_conc measurement) (data_m measurement))
        (measurements experiment))"

definition enzyme_of :: "EnzymeKineticsExperiment \<Rightarrow> fval list" where
  "enzyme_of experiment =
     concat (map (\<lambda>measurement.
        map (\<lambda>replica. enzyme_conc measurement) (data_m measurement))
        (measurements experiment))"

definition inhibitor_of :: "EnzymeKineticsExperiment \<Rightarrow> fval list" where
  "inhibitor_of experiment =
     concat (map (\<lambda>measurement.
        map (\<lambda>replica. case inhibitor_conc measurement of Some c \<Rightarrow> c | None \<Rightarrow> Fin 0)
            (data_m measurement))
        (measurements experiment))"

text \<open>
  \<open>np.array(measurement_data).shape\<close> followed by \<open>measurement_shape[1]\<close>: the number of
  columns. No row at all gives the shape \<open>(0,)\<close>; rows of different lengths give, in the numpy
  the estimator was written for (before 1.24), a 1-D array of lists of shape \<open>(n,)\<close>. In both
  cases the index 1 of the shape raises IndexError.
\<close>

definition measurement_columns :: "fval list list \<Rightarrow> error + nat" where
  "measurement_columns rows =
     (case rows of
        [] \<Rightarrow> Inl IndexError
      | r # rs \<Rightarrow>
          if list_all (\<lambda>r'. length r' = length r) rs then Inr (length r)
          else Inl IndexError)"

text \<open>
  \<open>_calculate_substrate\<close> and \<open>_calculate_product\<close>: they read \<open>self.product\<close>
  (respectively \<open>self.substrate\<close>) and \<open>self.initial_substrate\<close>, which are passed here.
\<close>

definition calculate_substrate :: "fval list list \<Rightarrow> fval list \<Rightarrow> fval list list" where
  "calculate_substrate products init =
     map (\<lambda>(product, initial_substrate). map (\<lambda>value. fsub initial_substrate value) product)
         (zip products init)"

definition calculate_product :: "fval list list \<Rightarrow> fval list \<Rightarrow> fval list list" where
  "calculate_product substrates init =
     map (\<lambda>(substrate, initial_substrate). map (\<lambda>value. fsub initial_substrate value) substrate)
         (zip substrates init)"

definition initialize_measurement_data ::
  "EnzymeKineticsExperiment \<Rightarrow> error + NormalizedData" where
  "initialize_measurement_data experiment =
     (let measurement_data = measurement_data_of experiment;
          init = initial_substrate_of experiment
      in case measurement_columns measurement_data of
           Inl e \<Rightarrow> Inl e
         | Inr columns \<Rightarrow>
             let base = \<lparr> data = experiment,
                          time = exp_time experiment,
                          initial_substrate = init,
                          enzyme = enzyme_of experiment,
                          inhibitor = map (\<lambda>c. replicate columns c) (inhibitor_of experiment),
                          substrate = [],
                          product = [] \<rparr>
             in if stoichiometry experiment = SUBSTRATE_value then
                  Inr (base\<lparr> substrate := measurement_data,
                             product := calculate_product measurement_data init \<rparr>)
                else if stoichiometry experiment = PRODUCT_value then
                  Inr (base\<lparr> product := measurement_data,
                             substrate := calculate_substrate measurement_data init \<rparr>)
                else Inl (AttributeError
                  [Text ''Please define whether measured data is substrate or product data.'']))"

text \<open>\<open>_check_negative_concentrations\<close>: the substrate array is tested first.\<close>

definition any_negative :: "fval list list \<Rightarrow> bool" where
  "any_negative rows = list_ex (\<lambda>row. list_ex (\<lambda>x. flt x (Fin 0)) row) rows"

definition check_negative_concentrations :: "'a NormalizedData_scheme \<Rightarrow> error + unit" where
  "check_negative_concentrations self =
     (if any_negative (substrate self) then
        Inl (ValueError [Text ''Substrate data contains negative concentrations. Check data.''])
      else if any_negative (product self) then
        Inl (ValueError [Text ''Product data contains negative concentrations. Check data.''])
      else Inr ())"

section \<open>The initial guesses\<close>

text \<open>\<open>np.diff\<close> along the last axis: \<open>out[j] = a[j + 1] - a[j]\<close>.\<close>

definition np_diff :: "fval list \<Rightarrow> fval list" where
  "np_diff a = map (\<lambda>(next_value, value). fsub next_value value) (zip (tl a) a)"

text \<open>The number of columns of a 2-D array that has at least one row.\<close>

definition columns_of :: "fval list list \<Rightarrow> nat" where
  "columns_of rows = (case rows of [] \<Rightarrow> 0 | r # _ \<Rightarrow> length r)"

text \<open>
  \<open>concentration_intervals / time_intervals\<close>: an array of shape \<open>(n, k)\<close> divided by one of
  shape \<open>(m,)\<close>. numpy divides column by column when \<open>k = m\<close>, stretches the operand whose
  length is 1 otherwise, and raises a ValueError when neither applies.
\<close>

definition broadcast_divide :: "fval list list \<Rightarrow> fval list \<Rightarrow> error + fval list list" where
  "broadcast_divide rows ts =
     (if columns_of rows = length ts then
        Inr (map (\<lambda>row. map (\<lambda>(x, t). fdiv x t) (zip row ts)) rows)
      else if length ts = 1 then
        Inr (map (\<lambda>row. map (\<lambda>x. fdiv x (hd ts)) row) rows)
      else if columns_of rows = 1 then
        Inr (map (\<lambda>row. map (\<lambda>t. fdiv (hd row) t) ts) rows)
      else Inl (ValueError [Text ''operands could not be broadcast together'']))"

definition calculate_rates :: "'a NormalizedData_scheme \<Rightarrow> error + fval list list" where
  "calculate_rates self =
     (let concentration_intervals = map np_diff (substrate self);
          time_intervals = np_diff (exp_time (data self))
      in case broadcast_divide concentration_intervals time_intervals of
           Inl e \<Rightarrow> Inl e
         | Inr quotients \<Rightarrow> Inr (map (map fabs) quotients))"

text \<open>
  \<open>np.nanmax\<close> of a whole array: \<open>np.fmax\<close> folded over the flattened array. An array
  without elements raises a ValueError; an array of NaN only gives NaN (and a warning).
\<close>

definition nanmax :: "fval list \<Rightarrow> error + fval" where
  "nanmax xs =
     (case xs of
        [] \<Rightarrow> Inl (ValueError [Text ''zero-size array to reduction operation fmax which has no identity''])
      | x # rest \<Rightarrow> Inr (foldl fmax x rest))"

text \<open>
  \<open>_calculate_kcat\<close>: \<open>np.repeat(self.enzyme, rates.shape[1]).reshape(rates.shape)\<close> is the
  array whose row \<open>i\<close> repeats \<open>enzyme[i]\<close>; the reshape needs as many repeated entries as
  the rates have elements.
\<close>

definition enzyme_tile :: "fval list \<Rightarrow> fval list list \<Rightarrow> error + fval list list" where
  "enzyme_tile enz rates =
     (if length enz = length rates then Inr (map (\<lambda>e. replicate (columns_of rates) e) enz)
      else if columns_of rates = 0 then Inr (map (\<lambda>row. []) rates)
      else Inl (ValueError [Text ''cannot reshape array'']))"

definition calculate_kcat :: "'a NormalizedData_scheme \<Rightarrow> error + fval" where
  "calculate_kcat self =
     (case calculate_rates self of
        Inl e \<Rightarrow> Inl e
      | Inr rates \<Rightarrow>
          (case enzyme_tile (enzyme self) rates of
             Inl e \<Rightarrow> Inl e
           | Inr initial_enzyme_tile \<Rightarrow>
               nanmax (concat (map (\<lambda>(rate_row, enzyme_row).
                                      map (\<lambda>(r, e). fdiv r e) (zip rate_row enzyme_row))
                                   (zip rates initial_enzyme_tile)))))"

definition calculate_Km :: "'a NormalizedData_scheme \<Rightarrow> error + fval" where
  "calculate_Km self =
     (case calculate_rates self of
        Inl e \<Rightarrow> Inl e
      | Inr rates \<Rightarrow>
          (case nanmax (concat rates) of
             Inl e \<Rightarrow> Inl e
           | Inr m \<Rightarrow> Inr (fdiv m (Fin 2))))"

text \<open>
  \<open>ParameterEstimator.__init__\<close>: normalisation, the check for negative concentrations, then
  the two initial guesses. No model exists yet (\<open>self.models = None\<close>).
\<close>

definition init :: "EnzymeKineticsExperiment \<Rightarrow> error + ParameterEstimator" where
  "init experiment =
     (case initialize_measurement_data experiment of
        Inl e \<Rightarrow> Inl e
      | Inr self \<Rightarrow>
          (case check_negative_concentrations self of
             Inl e \<Rightarrow> Inl e
           | Inr _ \<Rightarrow>
               (case calculate_kcat self of
                  Inl e \<Rightarrow> Inl e
                | Inr kcat \<Rightarrow>
                    (case calculate_Km self of
                       Inl e \<Rightarrow> Inl e
                     | Inr Km \<Rightarrow>
                         Inr (NormalizedData.extend self
                                \<lparr> initial_kcat = kcat, initial_Km = Km \<rparr>)))))"

section \<open>Subsetting\<close>

text \<open>
  A Python slice \<open>a[start:stop]\<close> with either bound possibly \<open>None\<close>: a negative bound counts
  from the end, and every bound is clipped to the length.
\<close>

definition slice_bound :: "nat \<Rightarrow> int \<Rightarrow> nat" where
  "slice_bound n b = (if b < 0 then nat (max (int n + b) 0) else min (nat b) n)"

text \<open>The window of a slice over \<open>n\<close> elements: its first position and its length.\<close>

definition slice_window :: "int option \<Rightarrow> int option \<Rightarrow> nat \<Rightarrow> nat \<times> nat" where
  "slice_window start stop n =
     (let lo = (case start of None \<Rightarrow> 0 | Some b \<Rightarrow> slice_bound n b);
          hi = (case stop of None \<Rightarrow> n | Some b \<Rightarrow> slice_bound n b)
      in (lo, hi - lo))"

definition py_slice :: "int option \<Rightarrow> int option \<Rightarrow> 'a list \<Rightarrow> 'a list" where
  "py_slice start stop a =
     (case slice_window start stop (length a) of (lo, count) \<Rightarrow> take count (drop lo a))"

text \<open>\<open>x in array\<close> is \<open>(array == x).any()\<close>; \<open>np.where(array == x)[0]\<close> lists the positions.\<close>

definition contains :: "fval list \<Rightarrow> fval \<Rightarrow> bool" where
  "contains array x = list_ex (\<lambda>y. feq y x) array"

definition np_where :: "fval list \<Rightarrow> fval \<Rightarrow> nat list" where
  "np_where array x = filter (\<lambda>i. feq (array ! i) x) [0..<length array]"

text \<open>
  \<open>np.unique\<close>: the sorted values without repetition. numpy sorts floats with the
  infinities at the two ends and NaN last, and keeps one NaN. This order of sorting is the
  order \<open>\<le>\<close> on the values; it is not the comparison \<open>flt\<close> of the program, which is false
  on NaN.
\<close>

fun sort_le :: "fval \<Rightarrow> fval \<Rightarrow> bool" where
  "sort_le _ NaN = True"
| "sort_le NaN _ = False"
| "sort_le a b = (\<not> flt b a)"

instantiation fval :: linorder
begin

definition less_eq_fval :: "fval \<Rightarrow> fval \<Rightarrow> bool" where
  "less_eq_fval a b = sort_le a b"

definition less_fval :: "fval \<Rightarrow> fval \<Rightarrow> bool" where
  "less_fval a b = (sort_le a b \<and> \<not> sort_le b a)"

instance
proof
  fix x y z :: fval
  show "(x < y) = (x \<le> y \<and> \<not> y \<le> x)"
    by (simp add: less_fval_def less_eq_fval_def)
  show "x \<le> x"
    by (cases x) (simp_all add: less_eq_fval_def)
  show "x \<le> y \<Longrightarrow> y \<le> z \<Longrightarrow> x \<le> z"
    by (cases x; cases y; cases z) (simp_all add: less_eq_fval_def)
  show "x \<le> y \<Longrightarrow> y \<le> x \<Longrightarrow> x = y"
    by (cases x; cases y) (simp_all add: less_eq_fval_def)
  show "x \<le> y \<or> y \<le> x"
    by (cases x; cases y) (auto simp: less_eq_fval_def)
qed

end

definition np_unique :: "fval list \<Rightarrow> fval list" where
  "np_unique xs = remdups_adj (sort xs)"

text \<open>
  Indexing with an integer array, \<open>a[idx]\<close>: the rows at the listed positions, in the order
  of the list; a position outside the array raises IndexError.
\<close>

definition take_rows :: "'a list \<Rightarrow> nat list \<Rightarrow> error + 'a list" where
  "take_rows a idx =
     (if list_all (\<lambda>i. i < length a) idx then Inr (map (\<lambda>i. a ! i) idx) else Inl IndexError)"

text \<open>
  The loop of \<open>_subset_data\<close> over the requested concentrations, \<open>idx\<close> being the positions
  collected so far.
\<close>

definition not_found_message :: "fval \<Rightarrow> fval list \<Rightarrow> part list" where
  "not_found_message concentration known =
     [Num concentration, Text '' not found in initial substrate concentrations. '',
      Text [CHR 0x0A], Text ''Initial substrate concentrations are '', NumList known]"

fun collect_idx :: "fval list \<Rightarrow> fval list \<Rightarrow> nat list \<Rightarrow> error + nat list" where
  "collect_idx array [] idx = Inr idx"
| "collect_idx array (concentration # rest) idx =
     (if \<not> contains array concentration then
        Inl (ValueError (not_found_message concentration (np_unique array)))
      else collect_idx array rest (idx @ np_where array concentration))"

type_synonym subset =
  "fval list list \<times> fval list list \<times> fval list \<times> fval list \<times> fval list \<times> fval list list"

text \<open>The positions \<open>idx\<close> of the rows to keep: all rows without a filter.\<close>

definition row_indices :: "'a NormalizedData_scheme \<Rightarrow> fval list option \<Rightarrow> error + nat list" where
  "row_indices self initial_substrates =
     (case initial_substrates of
        None \<Rightarrow> Inr [0..<length (substrate self)]
      | Some [] \<Rightarrow> Inr [0..<length (substrate self)]
      | Some cs \<Rightarrow> collect_idx (initial_substrate self) cs [])"

definition subset_data ::
  "'a NormalizedData_scheme \<Rightarrow> fval list option \<Rightarrow> int option \<Rightarrow> int option \<Rightarrow> error + subset"
where
  "subset_data self initial_substrates start_time_index stop_time_index =
     (case row_indices self initial_substrates of
        Inl e \<Rightarrow> Inl e
      | Inr idx \<Rightarrow>
          (case take_rows (substrate self) idx of Inl e \<Rightarrow> Inl e | Inr substrate_rows \<Rightarrow>
          (case take_rows (product self) idx of Inl e \<Rightarrow> Inl e | Inr product_rows \<Rightarrow>
          (case take_rows (enzyme self) idx of Inl e \<Rightarrow> Inl e | Inr new_enzyme \<Rightarrow>
          (case take_rows (initial_substrate self) idx of
             Inl e \<Rightarrow> Inl e
           | Inr new_initial_substrate \<Rightarrow>
          (case take_rows (inhibitor self) idx of Inl e \<Rightarrow> Inl e | Inr new_inhibitor \<Rightarrow>
             Inr (map (py_slice start_time_index stop_time_index) substrate_rows,
                  map (py_slice start_time_index stop_time_index) product_rows,
                  new_enzyme,
                  new_initial_substrate,
                  py_slice start_time_index stop_time_index (time self),
                  new_inhibitor)))))))"

section \<open>The model set\<close>

text \<open>
  Modelled from the spec: the class \<open>KineticModel\<close> and the nine rate laws are imported from
  the module \<open>kineticmodel\<close>, which is not part of the sources. A model descriptor is the
  record of the arguments its constructor is called with (section 3, Model Descriptor); a
  rate law is named by a constructor. The dictionary \<open>w0\<close> has the four slots \<open>cS\<close>, \<open>cE\<close>,
  \<open>cP\<close> and \<open>cI\<close>, in this order.
\<close>

datatype rate_law =
    irreversible_model
  | competitive_product_inhibition_model
  | uncompetitive_product_inhibition_model
  | noncompetitive_product_inhibition_model
  | substrate_inhibition_model
  | competitive_inhibition_model
  | uncompetitive_inhibition_model
  | noncompetitive_inhibition_model
  | partially_competitive_inhibition_model

record initial_state =
  cS :: "fval list list"
  cE :: "fval list"
  cP :: "fval list list"
  cI :: "fval list list"

record KineticModel =
  name :: string
  params :: "string list"
  w0 :: initial_state
  kcat_initial :: fval
  Km_initial :: fval
  model :: rate_law
  enzyme_inactivation :: bool

text \<open>\<open>np.all(self.inhibitor == 0)\<close> over the 2-D inhibitor array of the estimator.\<close>

definition all_zero :: "fval list list \<Rightarrow> bool" where
  "all_zero rows = list_all (\<lambda>row. list_all (\<lambda>x. feq x (Fin 0)) row) rows"

definition kinetic_model ::
  "ParameterEstimator \<Rightarrow> bool \<Rightarrow> string \<Rightarrow> string list \<Rightarrow> initial_state \<Rightarrow> rate_law \<Rightarrow> KineticModel"
where
  "kinetic_model self inactivation model_name free_params state law =
     \<lparr> name = model_name, params = free_params, w0 = state,
       kcat_initial = initial_kcat self, Km_initial = initial_Km self,
       model = law, enzyme_inactivation = inactivation \<rparr>"

text \<open>
  \<open>_initialize_models\<close>. The branch is decided by \<open>self.inhibitor\<close>, the inhibitor array of
  the whole normalised dataset, not by the argument \<open>inhibitor\<close>. The flag
  \<open>self.enzyme_inactivation\<close> was assigned by \<open>fit_models\<close> and is passed here. The returned
  dictionary is the list of its (key, value) pairs in insertion order.
\<close>

definition initialize_models ::
  "ParameterEstimator \<Rightarrow> bool \<Rightarrow> fval list list \<Rightarrow> fval list list \<Rightarrow> fval list \<Rightarrow> fval list list
     \<Rightarrow> (string \<times> KineticModel) list"
where
  "initialize_models self inactivation substrate_a product_a enzyme_a inhibitor_a =
     (if all_zero (inhibitor self) then
        (let irreversible_Michaelis_Menten = kinetic_model self inactivation
               ''irreversible Michaelis Menten'' []
               \<lparr> cS = substrate_a, cE = enzyme_a, cP = product_a, cI = inhibitor_a \<rparr>
               irreversible_model;
             competitive_product_inhibition = kinetic_model self inactivation
               ''competitive product inhibition'' [''K_ic'']
               \<lparr> cS = substrate_a, cE = enzyme_a, cP = product_a, cI = product_a \<rparr>
               competitive_product_inhibition_model;
             uncompetitive_product_inhibition = kinetic_model self inactivation
               ''uncompetitive product inhibition'' [''K_iu'']
               \<lparr> cS = substrate_a, cE = enzyme_a, cP = product_a, cI = product_a \<rparr>
               uncompetitive_product_inhibition_model;
             noncompetitive_product_inhibition = kinetic_model self inactivation
               ''non-competitive product inhibition'' [''K_iu'', ''K_ic'']
               \<lparr> cS = substrate_a, cE = enzyme_a, cP = product_a, cI = product_a \<rparr>
               noncompetitive_product_inhibition_model;
             substrate_inhibition = kinetic_model self inactivation
               ''substrate inhibition'' [''K_iu'']
               \<lparr> cS = substrate_a, cE = enzyme_a, cP = product_a, cI = substrate_a \<rparr>
               substrate_inhibition_model
         in [(name irreversible_Michaelis_Menten, irreversible_Michaelis_Menten),
             (name competitive_product_inhibition, competitive_product_inhibition),
             (name uncompetitive_product_inhibition, uncompetitive_product_inhibition),
             (name noncompetitive_product_inhibition, noncompetitive_product_inhibition),
             (name substrate_inhibition, substrate_inhibition)])
      else
        (let competitive_inhibition = kinetic_model self inactivation
               ''competitive inhibition'' [''K_ic'']
               \<lparr> cS = substrate_a, cE = enzyme_a, cP = product_a, cI = inhibitor_a \<rparr>
               competitive_inhibition_model;
             uncompetitive_inhibition = kinetic_model self inactivation
               ''uncompetitive inhibition'' [''K_iu'']
               \<lparr> cS = substrate_a, cE = enzyme_a, cP = product_a, cI = inhibitor_a \<rparr>
               uncompetitive_inhibition_model;
             noncompetitive_inhibition = kinetic_model self inactivation
               ''non-competitive inhibition'' [''K_iu'', ''K_ic'']
               \<lparr> cS = substrate_a, cE = enzyme_a, cP = product_a, cI = inhibitor_a \<rparr>
               noncompetitive_inhibition_model;
             partially_competitive_inhibition = kinetic_model self inactivation
               ''partially competitive inhibition'' [''K_ic'', ''K_iu'']
               \<lparr> cS = substrate_a, cE = enzyme_a, cP = product_a, cI = inhibitor_a \<rparr>
               partially_competitive_inhibition_model
         in [(name competitive_inhibition, competitive_inhibition),
             (name uncompetitive_inhibition, uncompetitive_inhibition),
             (name noncompetitive_inhibition, noncompetitive_inhibition),
             (name partially_competitive_inhibition, partially_competitive_inhibition)]))"

section \<open>Fitting: the data handed to the minimiser\<close>

text \<open>
  \<open>np.any([initial_substrate_concs, start_time_index, stop_time_index])\<close>: the three
  arguments form an array of Python objects (a list among them is kept as one object by the
  numpy the estimator was written for, before 1.24), and the result is as truthy as
  \<open>a or b or c\<close>. \<open>None\<close>, the integer 0 and the empty list are falsy.
\<close>

definition truthy_list :: "fval list option \<Rightarrow> bool" where
  "truthy_list l = (case l of None \<Rightarrow> False | Some [] \<Rightarrow> False | Some (x # xs) \<Rightarrow> True)"

definition truthy_int :: "int option \<Rightarrow> bool" where
  "truthy_int i = (case i of None \<Rightarrow> False | Some k \<Rightarrow> k \<noteq> 0)"

text \<open>
  The attributes \<open>fit_models\<close> assigns before it starts the minimisation. The minimisation
  itself (\<open>lmfit.minimize\<close> over \<open>scipy.integrate.odeint\<close>) is outside the sources.
\<close>

record fit_state =
  self_enzyme_inactivation :: bool
  subset_substrate :: "fval list list"
  subset_product :: "fval list list"
  subset_enzyme :: "fval list"
  subset_initial_substrate :: "fval list"
  subset_time :: "fval list"
  subset_inhibitor :: "fval list list"
  models :: "(string \<times> KineticModel) list"

definition fit_models ::
  "ParameterEstimator \<Rightarrow> fval list option \<Rightarrow> int option \<Rightarrow> int option \<Rightarrow> bool \<Rightarrow> error + fit_state"
where
  "fit_models self initial_substrate_concs start_time_index stop_time_index inactivation =
     (case (if truthy_list initial_substrate_concs \<or> truthy_int start_time_index
               \<or> truthy_int stop_time_index
            then subset_data self initial_substrate_concs start_time_index stop_time_index
            else Inr (substrate self, product self, enzyme self, initial_substrate self,
                      time self, inhibitor self)) of
        Inl e \<Rightarrow> Inl e
      | Inr (s, p, e, i0, t, inh) \<Rightarrow>
          Inr \<lparr> self_enzyme_inactivation = inactivation,
                subset_substrate = s, subset_product = p, subset_enzyme = e,
                subset_initial_substrate = i0, subset_time = t, subset_inhibitor = inh,
                models = initialize_models self inactivation s p e inh \<rparr>)"

text \<open>
  The initial state \<open>residual\<close> assembles for row \<open>i\<close> of a model:
  \<open>cS, cE, cP, cI = kineticmodel.w0.values()\<close> and \<open>w0 = (cS[i, 0], cE[i], cP[i, 0], cI[i, 0])\<close>.
  An index outside an array raises IndexError.
\<close>

definition index1 :: "fval list \<Rightarrow> nat \<Rightarrow> error + fval" where
  "index1 a i = (if i < length a then Inr (a ! i) else Inl IndexError)"

definition index2 :: "fval list list \<Rightarrow> nat \<Rightarrow> nat \<Rightarrow> error + fval" where
  "index2 a i j = (if i < length a then index1 (a ! i) j else Inl IndexError)"

definition residual_w0 :: "KineticModel \<Rightarrow> nat \<Rightarrow> error + (fval \<times> fval \<times> fval \<times> fval)" where
  "residual_w0 kineticmodel i =
     (case index2 (cS (w0 kineticmodel)) i 0 of Inl e \<Rightarrow> Inl e | Inr s \<Rightarrow>
     (case index1 (cE (w0 kineticmodel)) i of Inl e \<Rightarrow> Inl e | Inr e \<Rightarrow>
     (case index2 (cP (w0 kineticmodel)) i 0 of Inl e \<Rightarrow> Inl e | Inr p \<Rightarrow>
     (case index2 (cI (w0 kineticmodel)) i 0 of Inl e \<Rightarrow> Inl e | Inr d \<Rightarrow>
        Inr (s, e, p, d)))))"

section \<open>The result overview\<close>

text \<open>
  A parameter of a fit result, as \<open>lmfit\<close> hands it over: its name, its value and its
  standard error, which is \<open>None\<close> when the covariance could not be estimated. A number is
  a Python \<open>float\<close> or a \<open>numpy.float64\<close>; the two differ in what a division by zero does.
\<close>

datatype pynum = PyFloat fval | NpFloat fval

fun num_val :: "pynum \<Rightarrow> fval" where
  "num_val (PyFloat x) = x"
| "num_val (NpFloat x) = x"

record Parameter =
  parameter_name :: string
  parameter_value :: pynum
  parameter_stderr :: "pynum option"

text \<open>
  \<open>stderr / value\<close>: \<open>None\<close> has no division (TypeError); a \<open>float\<close> divided by a \<open>float\<close>
  zero raises ZeroDivisionError; as soon as one operand is a \<open>numpy.float64\<close> the quotient
  is the IEEE one. \<open>* 100\<close> keeps the kind of the number and never raises.
\<close>

fun truediv :: "pynum option \<Rightarrow> pynum \<Rightarrow> error + pynum" where
  "truediv None _ = Inl TypeError"
| "truediv (Some (PyFloat a)) (PyFloat b) =
     (if b = Fin 0 then Inl ZeroDivisionError else Inr (PyFloat (fdiv a b)))"
| "truediv (Some a) b = Inr (NpFloat (fdiv (num_val a) (num_val b)))"

fun times_100 :: "pynum \<Rightarrow> pynum" where
  "times_100 (PyFloat x) = PyFloat (fmul x (Fin 100))"
| "times_100 (NpFloat x) = NpFloat (fmul x (Fin 100))"

text \<open>
  The \<open>try\<close> block: only a TypeError is caught and replaced by \<open>float("nan")\<close>; any other
  exception leaves the block.
\<close>

definition percentual_stderr_of :: "pynum option \<Rightarrow> pynum \<Rightarrow> error + pynum" where
  "percentual_stderr_of stderr v =
     (case truediv stderr v of
        Inr q \<Rightarrow> Inr (times_100 q)
      | Inl TypeError \<Rightarrow> Inr (PyFloat NaN)
      | Inl e \<Rightarrow> Inl e)"

definition starts_with :: "string \<Rightarrow> string \<Rightarrow> bool" where
  "starts_with s p = (take (length p) s = p)"

definition parameter_mapper :: "ParameterEstimator \<Rightarrow> error + (string \<times> string) list" where
  "parameter_mapper self =
     (case (if all_zero (inhibitor self) then Inr (data_conc_unit (data self))
            else (case measurements (data self) of
                    [] \<Rightarrow> Inl IndexError
                  | m # _ \<Rightarrow> Inr (inhibitor_conc_unit m))) of
        Inl e \<Rightarrow> Inl e
      | Inr inhibitor_unit \<Rightarrow>
          Inr [(''k_cat'', ''kcat [1/'' @ time_unit (data self) @ '']''),
               (''Km'', ''Km ['' @ data_conc_unit (data self) @ '']''),
               (''K_ic'', ''Ki competitive ['' @ inhibitor_unit @ '']''),
               (''K_iu'', ''Ki uncompetitive ['' @ inhibitor_unit @ '']''),
               (''K_ie'', ''ki time-dep enzyme-inactiv. [1/'' @ time_unit (data self) @ '']'')])"

text \<open>
  The body of the loop over the parameters of one model: the display name (a missing key
  raises KeyError), the percentage, and the formatted entry. Both branches of the test on
  the display name build the same text.
\<close>

definition overview_entry ::
  "(string \<times> string) list \<Rightarrow> Parameter \<Rightarrow> error + (string \<times> part list)" where
  "overview_entry mapper parameter =
     (case map_of mapper (parameter_name parameter) of
        None \<Rightarrow> Inl (KeyError (parameter_name parameter))
      | Some display_name \<Rightarrow>
          (case percentual_stderr_of (parameter_stderr parameter) (parameter_value parameter) of
             Inl e \<Rightarrow> Inl e
           | Inr percentual_stderr \<Rightarrow>
               if starts_with display_name ''Ki time-dep'' then
                 Inr (display_name,
                      [Fixed 5 (num_val (parameter_value parameter)), Text '' +/- '',
                       Fixed 2 (num_val percentual_stderr), Text ''%''])
               else
                 Inr (display_name,
                      [Fixed 5 (num_val (parameter_value parameter)), Text '' +/- '',
                       Fixed 2 (num_val percentual_stderr), Text ''%''])))"

fun parameter_dict_of ::
  "(string \<times> string) list \<Rightarrow> Parameter list \<Rightarrow> (string \<rightharpoonup> part list)
     \<Rightarrow> error + (string \<rightharpoonup> part list)" where
  "parameter_dict_of mapper [] parameter_dict = Inr parameter_dict"
| "parameter_dict_of mapper (parameter # rest) parameter_dict =
     (case overview_entry mapper parameter of
        Inl e \<Rightarrow> Inl e
      | Inr (display_name, text) \<Rightarrow>
          parameter_dict_of mapper rest (parameter_dict(display_name \<mapsto> text)))"

section \<open>Arrays in memory: which results of subsetting share a buffer\<close>

text \<open>
  A numpy array is a window on a buffer. The memory is the list of the buffers allocated so
  far; an array names its buffer, the position of its first element and its shape (all
  arrays of the estimator are contiguous, in row order). Indexing with an integer array
  (\<open>a[idx]\<close>, \<open>a[idx, i:j]\<close>) allocates a new buffer; a plain slice (\<open>a[i:j]\<close>) is a window
  on the buffer of \<open>a\<close>.
\<close>

type_synonym memory = "fval list list"

record ndarray =
  buf_id :: nat
  buf_offset :: nat
  shape :: "nat list"

definition size_of :: "ndarray \<Rightarrow> nat" where
  "size_of a = prod_list (shape a)"

definition elements :: "memory \<Rightarrow> ndarray \<Rightarrow> fval list" where
  "elements mem a = take (size_of a) (drop (buf_offset a) (mem ! buf_id a))"

text \<open>The rows of a 2-D array, cut out of its elements in row order.\<close>

definition reshape :: "nat list \<Rightarrow> fval list \<Rightarrow> fval list list" where
  "reshape shp xs =
     (case shp of
        [n, c] \<Rightarrow> map (\<lambda>i. take c (drop (i * c) xs)) [0..<n]
      | _ \<Rightarrow> [])"

definition rows_of :: "memory \<Rightarrow> ndarray \<Rightarrow> fval list list" where
  "rows_of mem a = reshape (shape a) (elements mem a)"

definition alloc :: "memory \<Rightarrow> fval list \<Rightarrow> nat list \<Rightarrow> memory \<times> ndarray" where
  "alloc mem content shp = (mem @ [content], \<lparr> buf_id = length mem, buf_offset = 0, shape = shp \<rparr>)"

text \<open>
  An assignment to one element of an array, \<open>a.flat[k] = v\<close>: it changes the buffer of \<open>a\<close>,
  and raises IndexError outside the array.
\<close>

definition write_element :: "memory \<Rightarrow> ndarray \<Rightarrow> nat \<Rightarrow> fval \<Rightarrow> error + memory" where
  "write_element mem a k v =
     (if k < size_of a \<and> buf_id a < length mem then
        Inr (mem[buf_id a := (mem ! buf_id a)[buf_offset a + k := v]])
      else Inl IndexError)"

text \<open>The six arrays of the normalised dataset, as arrays in memory, and what they hold.\<close>

record estimator_arrays =
  data_st :: EnzymeKineticsExperiment
  time_st :: ndarray
  initial_substrate_st :: ndarray
  enzyme_st :: ndarray
  inhibitor_st :: ndarray
  substrate_st :: ndarray
  product_st :: ndarray

definition load :: "memory \<Rightarrow> estimator_arrays \<Rightarrow> NormalizedData" where
  "load mem refs =
     \<lparr> data = data_st refs,
       time = elements mem (time_st refs),
       initial_substrate = elements mem (initial_substrate_st refs),
       enzyme = elements mem (enzyme_st refs),
       inhibitor = rows_of mem (inhibitor_st refs),
       substrate = rows_of mem (substrate_st refs),
       product = rows_of mem (product_st refs) \<rparr>"

text \<open>
  The arrays \<open>_initialize_measurement_data\<close> creates (\<open>np.array(...)\<close> copies its argument):
  six buffers of their own.
\<close>

definition store :: "NormalizedData \<Rightarrow> memory \<times> estimator_arrays" where
  "store self =
     (let n = length (substrate self); c = columns_of (substrate self)
      in ([time self, initial_substrate self, enzyme self, concat (inhibitor self),
           concat (substrate self), concat (product self)],
          \<lparr> data_st = data self,
            time_st = \<lparr> buf_id = 0, buf_offset = 0, shape = [length (time self)] \<rparr>,
            initial_substrate_st =
              \<lparr> buf_id = 1, buf_offset = 0, shape = [length (initial_substrate self)] \<rparr>,
            enzyme_st = \<lparr> buf_id = 2, buf_offset = 0, shape = [length (enzyme self)] \<rparr>,
            inhibitor_st = \<lparr> buf_id = 3, buf_offset = 0, shape = [n, c] \<rparr>,
            substrate_st = \<lparr> buf_id = 4, buf_offset = 0, shape = [n, c] \<rparr>,
            product_st = \<lparr> buf_id = 5, buf_offset = 0, shape = [n, c] \<rparr> \<rparr>))"

text \<open>
  \<open>_subset_data\<close> on arrays in memory. The values are those of \<open>subset_data\<close>; the five
  arrays selected by \<open>idx\<close> are allocated, in the order of the assignments, and \<open>new_time\<close> is
  the window \<open>self.time[start_time_index:stop_time_index]\<close> on the buffer of \<open>self.time\<close>.
\<close>

type_synonym subset_arrays = "ndarray \<times> ndarray \<times> ndarray \<times> ndarray \<times> ndarray \<times> ndarray"

definition subset_data_st ::
  "memory \<Rightarrow> estimator_arrays \<Rightarrow> fval list option \<Rightarrow> int option \<Rightarrow> int option
     \<Rightarrow> error + (memory \<times> subset_arrays)"
where
  "subset_data_st mem refs initial_substrates start_time_index stop_time_index =
     (case subset_data (load mem refs) initial_substrates start_time_index stop_time_index of
        Inl e \<Rightarrow> Inl e
      | Inr (s, p, e, i0, t, inh) \<Rightarrow>
          (case alloc mem (concat s) [length s, columns_of s] of (mem1, new_substrate) \<Rightarrow>
          (case alloc mem1 (concat p) [length p, columns_of p] of (mem2, new_product) \<Rightarrow>
          (case alloc mem2 e [length e] of (mem3, new_enzyme) \<Rightarrow>
          (case alloc mem3 i0 [length i0] of (mem4, new_initial_substrate) \<Rightarrow>
          (case slice_window start_time_index stop_time_index (size_of (time_st refs)) of
             (lo, count) \<Rightarrow>
          (let new_time = \<lparr> buf_id = buf_id (time_st refs),
                             buf_offset = buf_offset (time_st refs) + lo,
                             shape = [count] \<rparr>
           in (case alloc mem4 (concat inh) [length inh, columns_of inh] of
                 (mem5, new_inhibitor) \<Rightarrow>
                   Inr (mem5, (new_substrate, new_product, new_enzyme, new_initial_substrate,
                               new_time, new_inhibitor))))))))))"

section \<open>Conditions on the data, and a small experiment\<close>


text \<open>The arrays of a normalised dataset have one row per replica.\<close>

definition rows_aligned :: "'a NormalizedData_scheme \<Rightarrow> bool" where
  "rows_aligned self =
     (length (substrate self) = length (initial_substrate self)
      \<and> length (product self) = length (initial_substrate self)
      \<and> length (enzyme self) = length (initial_substrate self)
      \<and> length (inhibitor self) = length (initial_substrate self))"

text \<open>
  Two measurements of one replica each, product measured at the times 0, 1 and 2; the second
  measurement has no enzyme.
\<close>

definition example_experiment :: EnzymeKineticsExperiment where
  "example_experiment =
     \<lparr> stoichiometry = ''product'',
       exp_time = [Fin 0, Fin 1, Fin 2],
       measurements =
         [\<lparr> initial_substrate_conc = Fin 10, enzyme_conc = Fin 1, inhibitor_conc = None,
            inhibitor_conc_unit = ''mM'', data_m = [\<lparr> values_r = [Fin 0, Fin 2, Fin 3] \<rparr>] \<rparr>,
          \<lparr> initial_substrate_conc = Fin 20, enzyme_conc = Fin 0, inhibitor_conc = Some (Fin 0),
            inhibitor_conc_unit = ''mM'', data_m = [\<lparr> values_r = [Fin 0, Fin 4, Fin 5] \<rparr>] \<rparr>],
       data_conc_unit = ''mM'',
       time_unit = ''s'' \<rparr>"

definition example_normalized :: NormalizedData where
  "example_normalized =
     \<lparr> data = example_experiment,
       time = [Fin 0, Fin 1, Fin 2],
       initial_substrate = [Fin 10, Fin 20],
       enzyme = [Fin 1, Fin 0],
       inhibitor = [[Fin 0, Fin 0, Fin 0], [Fin 0, Fin 0, Fin 0]],
       substrate = [[Fin 10, Fin 8, Fin 7], [Fin 20, Fin 16, Fin 15]],
       product = [[Fin 0, Fin 2, Fin 3], [Fin 0, Fin 4, Fin 5]] \<rparr>"

definition example_estimator :: ParameterEstimator where
  "example_estimator =
     \<lparr> data = example_experiment,
       time = [Fin 0, Fin 1, Fin 2],
       initial_substrate = [Fin 10, Fin 20],
       enzyme = [Fin 1, Fin 0],
       inhibitor = [[Fin 0, Fin 0, Fin 0], [Fin 0, Fin 0, Fin 0]],
       substrate = [[Fin 10, Fin 8, Fin 7], [Fin 20, Fin 16, Fin 15]],
       product = [[Fin 0, Fin 2, Fin 3], [Fin 0, Fin 4, Fin 5]],
       initial_kcat = PInf,
       initial_Km = Fin 2 \<rparr>"

text \<open>
  One measurement with the initial substrate concentration 10 and the reading 15: the derived
  counterpart is negative.
\<close>

definition negative_experiment :: "string \<Rightarrow> EnzymeKineticsExperiment" where
  "negative_experiment selector =
     \<lparr> stoichiometry = selector,
       exp_time = [Fin 0, Fin 1],
       measurements =
         [\<lparr> initial_substrate_conc = Fin 10, enzyme_conc = Fin 1, inhibitor_conc = None,
            inhibitor_conc_unit = ''mM'', data_m = [\<lparr> values_r = [Fin 0, Fin 15] \<rparr>] \<rparr>],
       data_conc_unit = ''mM'',
       time_unit = ''s'' \<rparr>"

text \<open>
  Two measurements of one replica each whose initial substrate concentrations are not in
  increasing order, and the estimator the constructor builds from them.
\<close>

definition reordered_experiment :: EnzymeKineticsExperiment where
  "reordered_experiment =
     \<lparr> stoichiometry = ''product'',
       exp_time = [Fin 0, Fin 1, Fin 2],
       measurements =
         [\<lparr> initial_substrate_conc = Fin 20, enzyme_conc = Fin 1, inhibitor_conc = None,
            inhibitor_conc_unit = ''mM'', data_m = [\<lparr> values_r = [Fin 0, Fin 4, Fin 5] \<rparr>] \<rparr>,
          \<lparr> initial_substrate_conc = Fin 10, enzyme_conc = Fin 1, inhibitor_conc = None,
            inhibitor_conc_unit = ''mM'', data_m = [\<lparr> values_r = [Fin 0, Fin 2, Fin 3] \<rparr>] \<rparr>],
       data_conc_unit = ''mM'',
       time_unit = ''s'' \<rparr>"

definition reordered_estimator :: ParameterEstimator where
  "reordered_estimator =
     \<lparr> data = reordered_experiment,
       time = [Fin 0, Fin 1, Fin 2],
       initial_substrate = [Fin 20, Fin 10],
       enzyme = [Fin 1, Fin 1],
       inhibitor = [[Fin 0, Fin 0, Fin 0], [Fin 0, Fin 0, Fin 0]],
       substrate = [[Fin 20, Fin 16, Fin 15], [Fin 10, Fin 8, Fin 7]],
       product = [[Fin 0, Fin 4, Fin 5], [Fin 0, Fin 2, Fin 3]],
       initial_kcat = Fin 4,
       initial_Km = Fin 2 \<rparr>"

section \<open>The initial states handed to the integrator\<close>

text \<open>
  \<open>_run_minimization\<close> visits the models in the order of the dictionary; for each of them
  \<open>residual\<close> walks through the rows of \<open>self.subset_substrate\<close> and assembles the initial
  state of the row. \<open>fit_models_w0\<close> is \<open>fit_models\<close> up to these initial states, under the
  name of each model.
\<close>

type_synonym w0_tuple = "fval \<times> fval \<times> fval \<times> fval"

definition run_minimization_w0 :: "fit_state \<Rightarrow> (string \<times> (error + w0_tuple) list) list" where
  "run_minimization_w0 f =
     map (\<lambda>(key, kineticmodel).
            (name kineticmodel,
             map (residual_w0 kineticmodel) [0..<length (subset_substrate f)]))
         (models f)"

definition fit_models_w0 ::
  "ParameterEstimator \<Rightarrow> fval list option \<Rightarrow> int option \<Rightarrow> int option \<Rightarrow> bool
     \<Rightarrow> error + (string \<times> (error + w0_tuple) list) list"
where
  "fit_models_w0 self initial_substrate_concs start_time_index stop_time_index inactivation =
     (case fit_models self initial_substrate_concs start_time_index stop_time_index
             inactivation of
        Inl e \<Rightarrow> Inl e
      | Inr f \<Rightarrow> Inr (run_minimization_w0 f))"

text \<open>The display names of the example estimator, whose inhibitor array is all zero.\<close>

definition example_mapper :: "(string \<times> string) list" where
  "example_mapper =
     [(''k_cat'', ''kcat [1/s]''),
      (''Km'', ''Km [mM]''),
      (''K_ic'', ''Ki competitive [mM]''),
      (''K_iu'', ''Ki uncompetitive [mM]''),
      (''K_ie'', ''ki time-dep enzyme-inactiv. [1/s]'')]"

section \<open>The initial guesses, in the words of the specification\<close>

text \<open>
  The finite-difference rate of a row over the interval \<open>j\<close> of the raw time grid,
  \<open>|\<Delta>substrate / \<Delta>time|\<close>; the rates of all rows and intervals; the rates divided by the
  enzyme concentration of their row.
\<close>

definition interval_rate :: "fval list \<Rightarrow> fval list \<Rightarrow> nat \<Rightarrow> fval" where
  "interval_rate grid row j =
     fabs (fdiv (fsub (row ! (j + 1)) (row ! j)) (fsub (grid ! (j + 1)) (grid ! j)))"

definition raw_rates :: "'a NormalizedData_scheme \<Rightarrow> fval list list" where
  "raw_rates self =
     map (\<lambda>row. map (interval_rate (exp_time (data self)) row)
                    [0..<length (exp_time (data self)) - 1])
         (substrate self)"

definition rate_quotients :: "'a NormalizedData_scheme \<Rightarrow> fval list list" where
  "rate_quotients self =
     map (\<lambda>i. map (\<lambda>r. fdiv r (enzyme self ! i)) (raw_rates self ! i))
         [0..<length (substrate self)]"

text \<open>
  The greatest of the values that are kept, in the order of the numbers, and NaN when no
  value is kept. The specification keeps the finite values; \<open>np.nanmax\<close> keeps every value
  that is not NaN.
\<close>

definition maximum_of :: "(fval \<Rightarrow> bool) \<Rightarrow> fval list \<Rightarrow> fval" where
  "maximum_of keep xs = (case filter keep xs of [] \<Rightarrow> NaN | y # ys \<Rightarrow> Max (set (y # ys)))"

definition finite_maximum :: "fval list \<Rightarrow> fval" where
  "finite_maximum xs = maximum_of is_fin xs"

definition nan_maximum :: "fval list \<Rightarrow> fval" where
  "nan_maximum xs = maximum_of (\<lambda>x. \<not> is_nan x) xs"

section \<open>Writing to an array returned by subsetting\<close>

text \<open>
  The six arrays of a dataset are in memory, each in a buffer of its own, as
  \<open>_initialize_measurement_data\<close> creates them.
\<close>

definition separate_arrays :: "memory \<Rightarrow> estimator_arrays \<Rightarrow> bool" where
  "separate_arrays mem refs =
     (let ids = [buf_id (time_st refs), buf_id (initial_substrate_st refs),
                 buf_id (enzyme_st refs), buf_id (inhibitor_st refs),
                 buf_id (substrate_st refs), buf_id (product_st refs)]
      in list_all (\<lambda>b. b < length mem) ids \<and> distinct ids)"

text \<open>
  One of the six arrays \<open>_subset_data\<close> returns; and the dataset as it reads after
  subsetting and then assigning \<open>v\<close> to element \<open>k\<close> of that array.
\<close>

datatype result_array =
  New_substrate | New_product | New_enzyme | New_initial_substrate | New_time | New_inhibitor

fun select_array :: "result_array \<Rightarrow> subset_arrays \<Rightarrow> ndarray" where
  "select_array New_substrate (s, p, e, i0, t, inh) = s"
| "select_array New_product (s, p, e, i0, t, inh) = p"
| "select_array New_enzyme (s, p, e, i0, t, inh) = e"
| "select_array New_initial_substrate (s, p, e, i0, t, inh) = i0"
| "select_array New_time (s, p, e, i0, t, inh) = t"
| "select_array New_inhibitor (s, p, e, i0, t, inh) = inh"

definition dataset_after_write ::
  "memory \<Rightarrow> estimator_arrays \<Rightarrow> fval list option \<Rightarrow> int option \<Rightarrow> int option
     \<Rightarrow> result_array \<Rightarrow> nat \<Rightarrow> fval \<Rightarrow> error + NormalizedData"
where
  "dataset_after_write mem refs initial_substrates start_time_index stop_time_index which k v =
     (case subset_data_st mem refs initial_substrates start_time_index stop_time_index of
        Inl e \<Rightarrow> Inl e
      | Inr (mem', arrays) \<Rightarrow>
          (case write_element mem' (select_array which arrays) k v of
             Inl e \<Rightarrow> Inl e
           | Inr mem'' \<Rightarrow> Inr (load mem'' refs)))"

text \<open>The example dataset in memory.\<close>

definition example_memory :: memory where
  "example_memory =
     [[Fin 0, Fin 1, Fin 2],
      [Fin 10, Fin 20],
      [Fin 1, Fin 0],
      [Fin 0, Fin 0, Fin 0, Fin 0, Fin 0, Fin 0],
      [Fin 10, Fin 8, Fin 7, Fin 20, Fin 16, Fin 15],
      [Fin 0, Fin 2, Fin 3, Fin 0, Fin 4, Fin 5]]"

definition example_arrays :: estimator_arrays where
  "example_arrays =
     \<lparr> data_st = example_experiment,
       time_st = \<lparr> buf_id = 0, buf_offset = 0, shape = [3] \<rparr>,
       initial_substrate_st = \<lparr> buf_id = 1, buf_offset = 0, shape = [2] \<rparr>,
       enzyme_st = \<lparr> buf_id = 2, buf_offset = 0, shape = [2] \<rparr>,
       inhibitor_st = \<lparr> buf_id = 3, buf_offset = 0, shape = [2, 3] \<rparr>,
       substrate_st = \<lparr> buf_id = 4, buf_offset = 0, shape = [2, 3] \<rparr>,
       product_st = \<lparr> buf_id = 5, buf_offset = 0, shape = [2, 3] \<rparr> \<rparr>"

section \<open>Properties\<close>

subsection \<open>Arithmetic on finite values\<close>



subsection \<open>Normalisation\<close>

lemma length_initial_substrate_of:
  "length (initial_substrate_of experiment) = length (measurement_data_of experiment)"
proof -
  have "length (concat (map (\<lambda>m. map (\<lambda>replica. initial_substrate_conc m) (data_m m)) ms))
      = length (concat (map (\<lambda>m. map values_r (data_m m)) ms))" for ms
    by (induction ms) simp_all
  then show ?thesis
    unfolding initial_substrate_of_def measurement_data_of_def by blast
qed



lemma length_calculate_substrate:
  "length (calculate_substrate rows known) = min (length rows) (length known)"
  by (simp add: calculate_substrate_def)


lemma length_calculate_product:
  "length (calculate_product rows known) = min (length rows) (length known)"
  by (simp add: calculate_product_def)





subsection \<open>The check for negative concentrations\<close>

lemma any_negative_iff:
  "any_negative rows \<longleftrightarrow>
     (\<exists>i < length rows. \<exists>t < length (rows ! i). flt (rows ! i ! t) (Fin 0))"
  unfolding any_negative_def list_ex_iff
  by (metis in_set_conv_nth)

text \<open>The errors that can leave the initial guesses are about shapes, not about signs.\<close>

lemma calculate_rates_error:
  "calculate_rates self = Inl e \<Longrightarrow>
     e = ValueError [Text ''operands could not be broadcast together'']"
  unfolding calculate_rates_def broadcast_divide_def
  by (auto simp: Let_def split: sum.splits if_splits)

lemma nanmax_error:
  "nanmax xs = Inl e \<Longrightarrow>
     e = ValueError [Text ''zero-size array to reduction operation fmax which has no identity'']"
  unfolding nanmax_def by (auto split: list.splits)

lemma enzyme_tile_error:
  "enzyme_tile enz rates = Inl e \<Longrightarrow> e = ValueError [Text ''cannot reshape array'']"
  unfolding enzyme_tile_def by (auto split: if_splits)

lemma calculate_kcat_error:
  "calculate_kcat self = Inl e \<Longrightarrow>
     e \<in> {ValueError [Text ''operands could not be broadcast together''],
          ValueError [Text ''zero-size array to reduction operation fmax which has no identity''],
          ValueError [Text ''cannot reshape array'']}"
  unfolding calculate_kcat_def
  by (auto split: sum.splits dest: calculate_rates_error nanmax_error enzyme_tile_error)

lemma calculate_Km_error:
  "calculate_Km self = Inl e \<Longrightarrow>
     e \<in> {ValueError [Text ''operands could not be broadcast together''],
          ValueError [Text ''zero-size array to reduction operation fmax which has no identity'']}"
  unfolding calculate_Km_def
  by (auto split: sum.splits dest: calculate_rates_error nanmax_error)

text \<open>
  Claim C5. Once the data is normalised, construction looks for a negative entry, first in
  the substrate array and then in the product array, and raises the value error that names
  the array; this is the result of the constructor, so no estimator exists on which a model
  could be built or fitted. Without a negative entry the check passes, and the constructor
  raises neither of the two errors.
\<close>

theorem negative_concentrations_raise:
  assumes norm: "initialize_measurement_data experiment = Inr self"
  shows "(any_negative (substrate self) \<longrightarrow>
            init experiment = Inl (ValueError
              [Text ''Substrate data contains negative concentrations. Check data.'']))
       \<and> (\<not> any_negative (substrate self) \<and> any_negative (product self) \<longrightarrow>
            init experiment = Inl (ValueError
              [Text ''Product data contains negative concentrations. Check data.'']))
       \<and> (\<not> any_negative (substrate self) \<and> \<not> any_negative (product self) \<longrightarrow>
            check_negative_concentrations self = Inr ()
            \<and> init experiment \<noteq> Inl (ValueError
                 [Text ''Substrate data contains negative concentrations. Check data.''])
            \<and> init experiment \<noteq> Inl (ValueError
                 [Text ''Product data contains negative concentrations. Check data.'']))"
proof (intro conjI impI)
  assume "any_negative (substrate self)"
  then show "init experiment = Inl (ValueError
      [Text ''Substrate data contains negative concentrations. Check data.''])"
    using norm by (simp add: init_def check_negative_concentrations_def)
next
  assume "\<not> any_negative (substrate self) \<and> any_negative (product self)"
  then show "init experiment = Inl (ValueError
      [Text ''Product data contains negative concentrations. Check data.''])"
    using norm by (simp add: init_def check_negative_concentrations_def)
next
  assume a: "\<not> any_negative (substrate self) \<and> \<not> any_negative (product self)"
  then show c: "check_negative_concentrations self = Inr ()"
    by (simp add: check_negative_concentrations_def)
  have r: "init experiment =
      (case calculate_kcat self of
         Inl e \<Rightarrow> Inl e
       | Inr kcat \<Rightarrow>
           (case calculate_Km self of
              Inl e \<Rightarrow> Inl e
            | Inr Km \<Rightarrow> Inr (NormalizedData.extend self
                               \<lparr> initial_kcat = kcat, initial_Km = Km \<rparr>)))"
    using norm c by (simp add: init_def)
  show "init experiment \<noteq> Inl (ValueError
      [Text ''Substrate data contains negative concentrations. Check data.''])"
    unfolding r
    by (auto split: sum.splits dest!: calculate_kcat_error calculate_Km_error)
  show "init experiment \<noteq> Inl (ValueError
      [Text ''Product data contains negative concentrations. Check data.''])"
    unfolding r
    by (auto split: sum.splits dest!: calculate_kcat_error calculate_Km_error)
qed

theorem negative_concentrations_raise_witness:
  "init (negative_experiment ''product'') = Inl (ValueError
      [Text ''Substrate data contains negative concentrations. Check data.''])
   \<and> init (negative_experiment ''substrate'') = Inl (ValueError
      [Text ''Product data contains negative concentrations. Check data.''])
   \<and> init example_experiment \<noteq> Inl (ValueError
      [Text ''Substrate data contains negative concentrations. Check data.''])"
proof -
  let ?p = "projr (initialize_measurement_data (negative_experiment ''product''))"
  let ?s = "projr (initialize_measurement_data (negative_experiment ''substrate''))"
  have np: "initialize_measurement_data (negative_experiment ''product'') = Inr ?p"
    by code_simp
  have ns: "initialize_measurement_data (negative_experiment ''substrate'') = Inr ?s"
    by code_simp
  have ne: "initialize_measurement_data example_experiment = Inr example_normalized"
    by code_simp
  have a: "any_negative (substrate ?p)"
    by code_simp
  have b: "\<not> any_negative (substrate ?s) \<and> any_negative (product ?s)"
    by code_simp
  have c: "\<not> any_negative (substrate example_normalized)
         \<and> \<not> any_negative (product example_normalized)"
    by code_simp
  show ?thesis
    using negative_concentrations_raise[OF np] negative_concentrations_raise[OF ns]
      negative_concentrations_raise[OF ne] a b c
    by blast
qed

subsection \<open>The model set\<close>

lemma all_zero_iff:
  "all_zero rows \<longleftrightarrow> (\<forall>row \<in> set rows. \<forall>x \<in> set row. feq x (Fin 0))"
  by (simp add: all_zero_def list_all_iff)

text \<open>
  Claim C2. The model set is decided by the inhibitor array of the normalised dataset alone:
  when every entry is zero the dictionary holds exactly the five inhibitor-free models, and
  otherwise exactly the four models of a true inhibitor; the keys are the names of the
  models, in the order of construction, and no key occurs twice.
\<close>

theorem model_set_by_inhibitor:
  "map (\<lambda>(key, m). (key, name m, model m))
       (initialize_models self inactivation s p e inh)
   = (if all_zero (inhibitor self) then
        [(''irreversible Michaelis Menten'', ''irreversible Michaelis Menten'',
            irreversible_model),
         (''competitive product inhibition'', ''competitive product inhibition'',
            competitive_product_inhibition_model),
         (''uncompetitive product inhibition'', ''uncompetitive product inhibition'',
            uncompetitive_product_inhibition_model),
         (''non-competitive product inhibition'', ''non-competitive product inhibition'',
            noncompetitive_product_inhibition_model),
         (''substrate inhibition'', ''substrate inhibition'', substrate_inhibition_model)]
      else
        [(''competitive inhibition'', ''competitive inhibition'',
            competitive_inhibition_model),
         (''uncompetitive inhibition'', ''uncompetitive inhibition'',
            uncompetitive_inhibition_model),
         (''non-competitive inhibition'', ''non-competitive inhibition'',
            noncompetitive_inhibition_model),
         (''partially competitive inhibition'', ''partially competitive inhibition'',
            partially_competitive_inhibition_model)])
   \<and> distinct (map fst (initialize_models self inactivation s p e inh))"
  by (simp add: initialize_models_def kinetic_model_def Let_def)

theorem model_set_by_inhibitor_witness:
  "length (initialize_models example_estimator False [] [] [] []) = 5
   \<and> length (initialize_models
        (example_estimator\<lparr> inhibitor := [[Fin 0, Fin 0, Fin 0], [Fin 3, Fin 3, Fin 3]] \<rparr>)
        False [] [] [] []) = 4"
proof -
  let ?e = "example_estimator\<lparr> inhibitor := [[Fin 0, Fin 0, Fin 0], [Fin 3, Fin 3, Fin 3]] \<rparr>"
  have a: "all_zero (inhibitor example_estimator)" by code_simp
  have b: "\<not> all_zero (inhibitor ?e)" by code_simp
  have "length (map (\<lambda>(key, m). (key, name m, model m))
                (initialize_models example_estimator False [] [] [] [])) = 5"
    using model_set_by_inhibitor[of example_estimator False "[]" "[]" "[]" "[]"] a
    by simp
  moreover have "length (map (\<lambda>(key, m). (key, name m, model m))
                (initialize_models ?e False [] [] [] [])) = 4"
    using model_set_by_inhibitor[of ?e False "[]" "[]" "[]" "[]"] b
    by simp
  ultimately show ?thesis by simp
qed

subsection \<open>Fitting without a subset\<close>

text \<open>
  Claim C10. A start index 0 with no filter and no stop index, and an empty filter list with
  no time index, are both falsy: \<open>fit_models\<close> takes the branch without subsetting, and the
  arrays it fits and the models it builds are those of a call without arguments, that is
  the arrays of the whole normalised dataset.
\<close>

theorem fit_models_falsy_arguments:
  "fit_models self None (Some 0) None inactivation = fit_models self None None None inactivation
   \<and> fit_models self (Some []) None None inactivation
       = fit_models self None None None inactivation
   \<and> fit_models self None None None inactivation =
       Inr \<lparr> self_enzyme_inactivation = inactivation,
             subset_substrate = substrate self,
             subset_product = product self,
             subset_enzyme = enzyme self,
             subset_initial_substrate = initial_substrate self,
             subset_time = time self,
             subset_inhibitor = inhibitor self,
             models = initialize_models self inactivation (substrate self) (product self)
                        (enzyme self) (inhibitor self) \<rparr>"
  by (simp add: fit_models_def truthy_list_def truthy_int_def)

theorem fit_models_falsy_arguments_witness:
  "fit_models example_estimator None (Some 0) None False
     = fit_models example_estimator None None None False
   \<and> map_sum id subset_substrate (fit_models example_estimator (Some []) None None False)
     = Inr (substrate example_estimator)
   \<and> map_sum id subset_time (fit_models example_estimator None (Some 0) None False)
     = Inr [Fin 0, Fin 1, Fin 2]"
proof -
  have t: "time example_estimator = [Fin 0, Fin 1, Fin 2]" by code_simp
  from fit_models_falsy_arguments[of example_estimator False] t show ?thesis by simp
qed

subsection \<open>Subsetting: the rows that are kept\<close>

lemma np_where_bound: "i \<in> set (np_where a c) \<Longrightarrow> i < length a"
  by (simp add: np_where_def)

lemma collect_idx_present:
  "\<forall>c \<in> set cs. contains a c \<Longrightarrow>
   collect_idx a cs idx = Inr (idx @ concat (map (np_where a) cs))"
  by (induction cs arbitrary: idx) simp_all

lemma collect_idx_absent:
  "\<exists>c \<in> set cs. \<not> contains a c \<Longrightarrow>
   \<exists>c \<in> set cs. \<not> contains a c
      \<and> collect_idx a cs idx = Inl (ValueError (not_found_message c (np_unique a)))"
proof (induction cs arbitrary: idx)
  case Nil
  then show ?case by simp
next
  case (Cons c cs)
  show ?case
  proof (cases "contains a c")
    case True
    with Cons.prems have "\<exists>c \<in> set cs. \<not> contains a c" by auto
    from Cons.IH[OF this, of "idx @ np_where a c"] True show ?thesis by auto
  next
    case False
    then show ?thesis by auto
  qed
qed

lemma take_rows_in_range:
  "\<forall>i \<in> set idx. i < length a \<Longrightarrow> take_rows a idx = Inr (map (\<lambda>i. a ! i) idx)"
  by (simp add: take_rows_def list_all_iff)

lemma row_indices_bound:
  assumes "rows_aligned self" and "row_indices self sel = Inr idx"
  shows "\<forall>i \<in> set idx. i < length (initial_substrate self)"
proof (cases sel)
  case None
  with assms show ?thesis by (auto simp: row_indices_def rows_aligned_def)
next
  case (Some cs)
  show ?thesis
  proof (cases cs)
    case Nil
    with Some assms show ?thesis by (auto simp: row_indices_def rows_aligned_def)
  next
    case (Cons c cs')
    show ?thesis
    proof (cases "\<forall>c \<in> set cs. contains (initial_substrate self) c")
      case True
      from collect_idx_present[OF True, of "[]"] assms(2) Some Cons
      have "idx = concat (map (np_where (initial_substrate self)) cs)"
        by (simp add: row_indices_def)
      then show ?thesis by (auto dest: np_where_bound)
    next
      case False
      then have "\<exists>c \<in> set cs. \<not> contains (initial_substrate self) c" by blast
      from collect_idx_absent[OF this, of "[]"] assms(2) Some Cons
      show ?thesis by (auto simp: row_indices_def)
    qed
  qed
qed

text \<open>Once the positions are found, an aligned dataset yields its rows without an error.\<close>

lemma subset_data_rows:
  assumes al: "rows_aligned self" and idx: "row_indices self sel = Inr idx"
  shows "subset_data self sel start stop =
           Inr (map (py_slice start stop) (map (\<lambda>i. substrate self ! i) idx),
                map (py_slice start stop) (map (\<lambda>i. product self ! i) idx),
                map (\<lambda>i. enzyme self ! i) idx,
                map (\<lambda>i. initial_substrate self ! i) idx,
                py_slice start stop (time self),
                map (\<lambda>i. inhibitor self ! i) idx)"
proof -
  from row_indices_bound[OF al idx]
  have b: "\<forall>i \<in> set idx. i < length (initial_substrate self)" .
  with al have
    "take_rows (substrate self) idx = Inr (map (\<lambda>i. substrate self ! i) idx)"
    "take_rows (product self) idx = Inr (map (\<lambda>i. product self ! i) idx)"
    "take_rows (enzyme self) idx = Inr (map (\<lambda>i. enzyme self ! i) idx)"
    "take_rows (initial_substrate self) idx = Inr (map (\<lambda>i. initial_substrate self ! i) idx)"
    "take_rows (inhibitor self) idx = Inr (map (\<lambda>i. inhibitor self ! i) idx)"
    by (simp_all add: take_rows_in_range rows_aligned_def)
  then show ?thesis
    by (simp add: subset_data_def idx)
qed

lemma set_np_unique: "set (np_unique xs) = set xs"
  by (simp add: np_unique_def)

lemma distinct_remdups_adj_sorted:
  fixes xs :: "'a::linorder list"
  shows "sorted xs \<Longrightarrow> distinct (remdups_adj xs)"
  by (induction xs rule: remdups_adj.induct) auto


lemma sorted_np_unique: "sorted (np_unique xs)"
  by (simp add: np_unique_def sorted_remdups_adj)



subsection \<open>Subsetting with every known concentration\<close>

lemma feq_eq: "feq x y \<Longrightarrow> x = y"
  by (cases x; cases y) simp_all

lemma feq_refl: "x \<noteq> NaN \<Longrightarrow> feq x x"
  by (cases x) simp_all

lemma contains_member: "c \<in> set a \<Longrightarrow> c \<noteq> NaN \<Longrightarrow> contains a c"
  unfolding contains_def list_ex_iff using feq_refl by blast

lemma sorted_wrt_np_where: "sorted_wrt (<) (np_where a c)"
  unfolding np_where_def by (rule sorted_wrt_filter) simp

text \<open>
  In a sorted array the positions of a smaller value come before those of a larger one, so
  collecting the positions value by value, in increasing order, lists them in increasing
  order.
\<close>

lemma sorted_wrt_collected:
  assumes "sorted a"
  shows "sorted cs \<Longrightarrow> distinct cs \<Longrightarrow> sorted_wrt (<) (concat (map (np_where a) cs))"
proof (induction cs)
  case Nil
  then show ?case by simp
next
  case (Cons c cs)
  have "i < j" if i: "i \<in> set (np_where a c)"
    and j: "j \<in> set (concat (map (np_where a) cs))" for i j
  proof (rule ccontr)
    assume "\<not> i < j"
    then have ji: "j \<le> i" by simp
    from i have il: "i < length a" and ic: "a ! i = c"
      by (auto simp: np_where_def dest: feq_eq)
    from j obtain c' where c': "c' \<in> set cs" and jc: "a ! j = c'"
      by (auto simp: np_where_def dest: feq_eq)
    from Cons.prems c' have "c \<le> c'" and "c \<noteq> c'" by auto
    moreover from assms ji il have "a ! j \<le> a ! i" by (rule sorted_nth_mono)
    ultimately show False using ic jc by simp
  qed
  moreover from Cons have "sorted_wrt (<) (concat (map (np_where a) cs))" by simp
  ultimately show ?case
    by (simp add: sorted_wrt_append sorted_wrt_np_where)
qed

lemma set_collected:
  assumes "NaN \<notin> set a"
  shows "set (concat (map (np_where a) (remdups_adj a))) = {0..<length a}"
proof
  show "set (concat (map (np_where a) (remdups_adj a))) \<subseteq> {0..<length a}"
    by (auto dest: np_where_bound)
next
  show "{0..<length a} \<subseteq> set (concat (map (np_where a) (remdups_adj a)))"
  proof
    fix i assume "i \<in> {0..<length a}"
    then have il: "i < length a" by simp
    then have m: "a ! i \<in> set a" by simp
    with assms have "feq (a ! i) (a ! i)" by (metis feq_refl)
    with il have "i \<in> set (np_where a (a ! i))" by (simp add: np_where_def)
    with m show "i \<in> set (concat (map (np_where a) (remdups_adj a)))" by auto
  qed
qed

lemma collected_sorted_array:
  assumes "sorted a" and "NaN \<notin> set a"
  shows "concat (map (np_where a) (np_unique a)) = [0..<length a]"
proof -
  have u: "np_unique a = remdups_adj a"
    using assms(1) by (simp add: np_unique_def sorted_sort_id)
  have "sorted_wrt (<) (concat (map (np_where a) (remdups_adj a)))"
    using sorted_wrt_collected[OF assms(1), of "remdups_adj a"] assms(1)
    by (simp add: distinct_remdups_adj_sorted)
  then have "sorted (concat (map (np_where a) (remdups_adj a)))"
    and "distinct (concat (map (np_where a) (remdups_adj a)))"
    by (simp_all add: strict_sorted_iff)
  moreover have "set (concat (map (np_where a) (remdups_adj a))) = set [0..<length a]"
    using set_collected[OF assms(2)] by simp
  ultimately have "concat (map (np_where a) (remdups_adj a)) = [0..<length a]"
    by (intro sorted_distinct_set_unique) simp_all
  with u show ?thesis by simp
qed

lemma py_slice_all: "py_slice None None a = a"
  by (simp add: py_slice_def slice_window_def)

lemma map_py_slice_all: "map (py_slice None None) rows = rows"
  by (induction rows) (simp_all add: py_slice_all)

text \<open>
  Claim C7, as the code has it. With both time bounds absent and a filter list of known
  concentrations, subsetting returns, for each concentration in the order of the filter
  list, the rows of that concentration: the rows are regrouped, their values unchanged. The
  arrays are identical to the unsubset arrays when the rows are already in that order: in
  particular when the filter is \<open>np.unique(initial_substrate)\<close> and the rows of the dataset
  are in non-decreasing order of their initial substrate concentration, none of them NaN.
\<close>

theorem subset_full_filter:
  assumes al: "rows_aligned self"
  shows "(cs \<noteq> [] \<and> (\<forall>c \<in> set cs. contains (initial_substrate self) c) \<longrightarrow>
            subset_data self (Some cs) None None =
              (let idx = concat (map (np_where (initial_substrate self)) cs)
               in Inr (map (\<lambda>i. substrate self ! i) idx,
                       map (\<lambda>i. product self ! i) idx,
                       map (\<lambda>i. enzyme self ! i) idx,
                       map (\<lambda>i. initial_substrate self ! i) idx,
                       time self,
                       map (\<lambda>i. inhibitor self ! i) idx)))
       \<and> (sorted (initial_substrate self) \<and> NaN \<notin> set (initial_substrate self) \<longrightarrow>
            subset_data self (Some (np_unique (initial_substrate self))) None None =
              Inr (substrate self, product self, enzyme self, initial_substrate self,
                   time self, inhibitor self))"
proof (intro conjI impI)
  assume a: "cs \<noteq> [] \<and> (\<forall>c \<in> set cs. contains (initial_substrate self) c)"
  then have "row_indices self (Some cs) = collect_idx (initial_substrate self) cs []"
    by (cases cs) (simp_all add: row_indices_def)
  with a have "row_indices self (Some cs)
      = Inr (concat (map (np_where (initial_substrate self)) cs))"
    by (simp add: collect_idx_present)
  from subset_data_rows[OF al this, of None None]
  show "subset_data self (Some cs) None None =
              (let idx = concat (map (np_where (initial_substrate self)) cs)
               in Inr (map (\<lambda>i. substrate self ! i) idx,
                       map (\<lambda>i. product self ! i) idx,
                       map (\<lambda>i. enzyme self ! i) idx,
                       map (\<lambda>i. initial_substrate self ! i) idx,
                       time self,
                       map (\<lambda>i. inhibitor self ! i) idx))"
    by (simp add: py_slice_all Let_def)
next
  let ?a = "initial_substrate self"
  assume s: "sorted ?a \<and> NaN \<notin> set ?a"
  have len: "length (substrate self) = length ?a" "length (product self) = length ?a"
    "length (enzyme self) = length ?a" "length (inhibitor self) = length ?a"
    using al by (simp_all add: rows_aligned_def)
  have "row_indices self (Some (np_unique ?a)) = Inr [0..<length ?a]"
  proof (cases "np_unique ?a")
    case Nil
    then have "?a = []" by (metis set_np_unique set_empty)
    with Nil len show ?thesis by (simp add: row_indices_def)
  next
    case (Cons c cs')
    have "\<forall>c \<in> set (np_unique ?a). contains ?a c"
      using s by (metis contains_member set_np_unique)
    then have "collect_idx ?a (np_unique ?a) [] = Inr (concat (map (np_where ?a) (np_unique ?a)))"
      by (simp add: collect_idx_present)
    moreover have "row_indices self (Some (np_unique ?a)) = collect_idx ?a (np_unique ?a) []"
      using Cons by (simp add: row_indices_def)
    ultimately show ?thesis
      using s by (simp add: collected_sorted_array)
  qed
  from subset_data_rows[OF al this, of None None]
  show "subset_data self (Some (np_unique ?a)) None None =
          Inr (substrate self, product self, enzyme self, ?a, time self, inhibitor self)"
    using len by (simp add: py_slice_all map_py_slice_all
        map_nth[of "substrate self", unfolded len]
        map_nth[of "product self", unfolded len] map_nth[of "enzyme self", unfolded len]
        map_nth[of "inhibitor self", unfolded len] map_nth)
qed

theorem subset_full_filter_witness:
  "subset_data example_estimator (Some [Fin 10, Fin 20]) None None =
     Inr (substrate example_estimator, product example_estimator, enzyme example_estimator,
          initial_substrate example_estimator, time example_estimator,
          inhibitor example_estimator)
   \<and> subset_data reordered_estimator (Some [Fin 10, Fin 20]) None None =
     Inr ([[Fin 10, Fin 8, Fin 7], [Fin 20, Fin 16, Fin 15]],
          [[Fin 0, Fin 2, Fin 3], [Fin 0, Fin 4, Fin 5]],
          [Fin 1, Fin 1], [Fin 10, Fin 20], [Fin 0, Fin 1, Fin 2],
          [[Fin 0, Fin 0, Fin 0], [Fin 0, Fin 0, Fin 0]])"
proof -
  have al: "rows_aligned example_estimator" by code_simp
  have s: "sorted (initial_substrate example_estimator)
         \<and> NaN \<notin> set (initial_substrate example_estimator)"
    by code_simp
  have u: "np_unique (initial_substrate example_estimator) = [Fin 10, Fin 20]"
    by code_simp
  have al': "rows_aligned reordered_estimator" by code_simp
  have c: "[Fin 10, Fin 20] \<noteq> []
         \<and> (\<forall>c \<in> set [Fin 10, Fin 20]. contains (initial_substrate reordered_estimator) c)"
    by code_simp
  have "subset_data example_estimator (Some [Fin 10, Fin 20]) None None =
     Inr (substrate example_estimator, product example_estimator, enzyme example_estimator,
          initial_substrate example_estimator, time example_estimator,
          inhibitor example_estimator)"
    using subset_full_filter[OF al, of "[]"] s u by simp
  moreover have "subset_data reordered_estimator (Some [Fin 10, Fin 20]) None None =
     Inr ([[Fin 10, Fin 8, Fin 7], [Fin 20, Fin 16, Fin 15]],
          [[Fin 0, Fin 2, Fin 3], [Fin 0, Fin 4, Fin 5]],
          [Fin 1, Fin 1], [Fin 10, Fin 20], [Fin 0, Fin 1, Fin 2],
          [[Fin 0, Fin 0, Fin 0], [Fin 0, Fin 0, Fin 0]])"
  proof -
    let ?a = "initial_substrate reordered_estimator"
    from subset_full_filter[OF al', of "[Fin 10, Fin 20]"] c
    have "subset_data reordered_estimator (Some [Fin 10, Fin 20]) None None =
        (let idx = concat (map (np_where ?a) [Fin 10, Fin 20])
         in Inr (map (\<lambda>i. substrate reordered_estimator ! i) idx,
                 map (\<lambda>i. product reordered_estimator ! i) idx,
                 map (\<lambda>i. enzyme reordered_estimator ! i) idx,
                 map (\<lambda>i. ?a ! i) idx,
                 time reordered_estimator,
                 map (\<lambda>i. inhibitor reordered_estimator ! i) idx))"
      by blast
    also have "\<dots> = Inr ([[Fin 10, Fin 8, Fin 7], [Fin 20, Fin 16, Fin 15]],
          [[Fin 0, Fin 2, Fin 3], [Fin 0, Fin 4, Fin 5]],
          [Fin 1, Fin 1], [Fin 10, Fin 20], [Fin 0, Fin 1, Fin 2],
          [[Fin 0, Fin 0, Fin 0], [Fin 0, Fin 0, Fin 0]])"
      by code_simp
    finally show ?thesis .
  qed
  ultimately show ?thesis by blast
qed

text \<open>
  The claim as it is written fails on a dataset whose measurements are not in increasing
  order of concentration: the filter \<open>[10, 20]\<close> is the full set of known concentrations of
  the dataset with the rows \<open>[20, 10]\<close>, and the rows come back exchanged.
\<close>

theorem subset_full_filter_counterexample:
  "init reordered_experiment = Inr reordered_estimator
   \<and> np_unique (initial_substrate reordered_estimator) = [Fin 10, Fin 20]
   \<and> initial_substrate reordered_estimator = [Fin 20, Fin 10]
   \<and> subset_data reordered_estimator (Some [Fin 10, Fin 20]) None None =
       Inr ([[Fin 10, Fin 8, Fin 7], [Fin 20, Fin 16, Fin 15]],
            [[Fin 0, Fin 2, Fin 3], [Fin 0, Fin 4, Fin 5]],
            [Fin 1, Fin 1], [Fin 10, Fin 20], [Fin 0, Fin 1, Fin 2],
            [[Fin 0, Fin 0, Fin 0], [Fin 0, Fin 0, Fin 0]])
   \<and> subset_data reordered_estimator (Some [Fin 10, Fin 20]) None None \<noteq>
       Inr (substrate reordered_estimator, product reordered_estimator,
            enzyme reordered_estimator, initial_substrate reordered_estimator,
            time reordered_estimator, inhibitor reordered_estimator)"
  by code_simp

subsection \<open>The initial state of a fit on a time window\<close>

lemma py_slice_first:
  assumes "py_slice (Some (int s)) stop row \<noteq> []"
  shows "py_slice (Some (int s)) stop row ! 0 = row ! s"
proof -
  let ?count = "(case stop of None \<Rightarrow> length row | Some b \<Rightarrow> slice_bound (length row) b)
                  - min s (length row)"
  have p: "py_slice (Some (int s)) stop row = take ?count (drop (min s (length row)) row)"
    by (simp add: py_slice_def slice_window_def slice_bound_def Let_def)
  with assms have "s < length row" and "0 < ?count"
    by (auto simp: min_def split: if_splits)
  then show ?thesis
    unfolding p by (simp add: min_def hd_drop_conv_nth)
qed

lemma index2_first:
  "i < length rows \<Longrightarrow> rows ! i \<noteq> [] \<Longrightarrow> index2 rows i 0 = Inr (rows ! i ! 0)"
  by (simp add: index2_def index1_def)

lemma models_w0_slots:
  assumes "(key, m) \<in> set (initialize_models self inactivation s p e inh)"
  shows "cS (w0 m) = s \<and> cE (w0 m) = e \<and> cP (w0 m) = p
       \<and> cI (w0 m) = (if model m = substrate_inhibition_model then s
                       else if model m \<in> {competitive_product_inhibition_model,
                                           uncompetitive_product_inhibition_model,
                                           noncompetitive_product_inhibition_model} then p
                       else inh)"
  using assms
  by (auto simp: initialize_models_def kinetic_model_def Let_def split: if_splits)

text \<open>
  Claim C4, as the code has it. The arrays in the slots of a model are the subset arrays
  \<open>fit_models\<close> hands to the model-set builder, so the initial state of row \<open>i\<close> is read in
  the first column of the time window: with a start index \<open>s > 0\<close> and a window that is not
  empty, it is the substrate, the product and a substrate or product driver of the selected
  row at column \<open>s\<close> of the dataset, with the enzyme of the row; a true inhibitor is read at
  column 0, the inhibitor array not being sliced. The initial state moves with the start
  index.
\<close>

theorem initial_state_follows_window:
  assumes al: "rows_aligned self"
    and idx: "row_indices self sel = Inr idx"
    and i: "i < length idx"
    and s: "0 < s"
    and ns: "py_slice (Some (int s)) stop (substrate self ! (idx ! i)) \<noteq> []"
    and np: "py_slice (Some (int s)) stop (product self ! (idx ! i)) \<noteq> []"
    and ni: "inhibitor self ! (idx ! i) \<noteq> []"
    and fit: "fit_models self sel (Some (int s)) stop inactivation = Inr f"
    and m: "(key, m) \<in> set (models f)"
  shows "residual_w0 m i =
           Inr (substrate self ! (idx ! i) ! s,
                enzyme self ! (idx ! i),
                product self ! (idx ! i) ! s,
                (if model m = substrate_inhibition_model then substrate self ! (idx ! i) ! s
                 else if model m \<in> {competitive_product_inhibition_model,
                                     uncompetitive_product_inhibition_model,
                                     noncompetitive_product_inhibition_model}
                 then product self ! (idx ! i) ! s
                 else inhibitor self ! (idx ! i) ! 0))"
proof -
  let ?S = "map (py_slice (Some (int s)) stop) (map (\<lambda>i. substrate self ! i) idx)"
  let ?P = "map (py_slice (Some (int s)) stop) (map (\<lambda>i. product self ! i) idx)"
  let ?E = "map (\<lambda>i. enzyme self ! i) idx"
  let ?I = "map (\<lambda>i. inhibitor self ! i) idx"
  from s have t: "truthy_int (Some (int s))" by (simp add: truthy_int_def)
  from fit t subset_data_rows[OF al idx, of "Some (int s)" stop]
  have f: "models f = initialize_models self inactivation ?S ?P ?E ?I"
    by (auto simp: fit_models_def)
  from m f models_w0_slots[of key m self inactivation ?S ?P ?E ?I]
  have slots: "cS (w0 m) = ?S" "cE (w0 m) = ?E" "cP (w0 m) = ?P"
    "cI (w0 m) = (if model m = substrate_inhibition_model then ?S
                  else if model m \<in> {competitive_product_inhibition_model,
                                      uncompetitive_product_inhibition_model,
                                      noncompetitive_product_inhibition_model} then ?P
                  else ?I)"
    by simp_all
  have a: "index2 ?S i 0 = Inr (substrate self ! (idx ! i) ! s)"
    using i ns by (simp add: index2_first py_slice_first)
  have b: "index2 ?P i 0 = Inr (product self ! (idx ! i) ! s)"
    using i np by (simp add: index2_first py_slice_first)
  have c: "index1 ?E i = Inr (enzyme self ! (idx ! i))"
    using i by (simp add: index1_def)
  have d: "index2 ?I i 0 = Inr (inhibitor self ! (idx ! i) ! 0)"
    using i ni by (simp add: index2_first)
  show ?thesis
    unfolding residual_w0_def slots using a b c d by simp
qed

theorem initial_state_follows_window_witness:
  "residual_w0
     (snd (hd (models (projr (fit_models example_estimator None (Some 1) None False))))) 0
   = Inr (Fin 8, Fin 1, Fin 2, Fin 0)"
proof -
  let ?f = "projr (fit_models example_estimator None (Some 1) None False)"
  let ?m = "snd (hd (models ?f))"
  let ?k = "fst (hd (models ?f))"
  have al: "rows_aligned example_estimator" by code_simp
  have idx: "row_indices example_estimator None = Inr [0, 1]" by code_simp
  have i: "(0::nat) < length [0::nat, 1]" by simp
  have s: "(0::nat) < 1" by simp
  have ns: "py_slice (Some (int 1)) None (substrate example_estimator ! ([0, 1] ! 0)) \<noteq> []"
    by code_simp
  have np: "py_slice (Some (int 1)) None (product example_estimator ! ([0, 1] ! 0)) \<noteq> []"
    by code_simp
  have ni: "inhibitor example_estimator ! ([0, 1] ! 0) \<noteq> []" by code_simp
  have fit: "fit_models example_estimator None (Some (int 1)) None False = Inr ?f"
    by code_simp
  have m: "(?k, ?m) \<in> set (models ?f)" by code_simp
  have law: "model ?m = irreversible_model" by code_simp
  have v: "substrate example_estimator ! ([0, 1] ! 0) ! 1 = Fin 8"
    "enzyme example_estimator ! ([0, 1] ! 0) = Fin 1"
    "product example_estimator ! ([0, 1] ! 0) ! 1 = Fin 2"
    "inhibitor example_estimator ! ([0, 1] ! 0) ! 0 = Fin 0"
    by code_simp+
  show ?thesis
    using initial_state_follows_window[OF al idx i s ns np ni fit m] law v by simp
qed

text \<open>
  The claim as it is written fails with the start index 1: the initial state of row 0 holds
  the substrate 8 and the product 2 of column 1, where the first column of the dataset
  holds 10 and 0.
\<close>

theorem initial_state_counterexample:
  "init example_experiment = Inr example_estimator
   \<and> fit_models_w0 example_estimator None (Some 1) None False =
       Inr [(''irreversible Michaelis Menten'',
               [Inr (Fin 8, Fin 1, Fin 2, Fin 0), Inr (Fin 16, Fin 0, Fin 4, Fin 0)]),
            (''competitive product inhibition'',
               [Inr (Fin 8, Fin 1, Fin 2, Fin 2), Inr (Fin 16, Fin 0, Fin 4, Fin 4)]),
            (''uncompetitive product inhibition'',
               [Inr (Fin 8, Fin 1, Fin 2, Fin 2), Inr (Fin 16, Fin 0, Fin 4, Fin 4)]),
            (''non-competitive product inhibition'',
               [Inr (Fin 8, Fin 1, Fin 2, Fin 2), Inr (Fin 16, Fin 0, Fin 4, Fin 4)]),
            (''substrate inhibition'',
               [Inr (Fin 8, Fin 1, Fin 2, Fin 8), Inr (Fin 16, Fin 0, Fin 4, Fin 16)])]
   \<and> substrate example_estimator ! 0 ! 0 = Fin 10
   \<and> product example_estimator ! 0 ! 0 = Fin 0"
  by code_simp

subsection \<open>The relative standard error in the result overview\<close>

lemma fdiv_by_zero:
  "is_fin e \<Longrightarrow> e \<noteq> Fin 0 \<Longrightarrow> fmul (fdiv e (Fin 0)) (Fin 100) \<in> {PInf, NInf}"
  by (cases e) (auto simp: signed_inf_def)

text \<open>
  Claim C3, as the code has it. For a parameter whose name has a display name: a standard
  error \<open>None\<close> gives the percentage NaN (the TypeError is caught); a \<open>numpy.float64\<close>
  standard error never raises, and the percentage is the IEEE value of
  \<open>stderr / value * 100\<close>, which for a value of zero is an infinity when the standard error
  is finite and not zero; a \<open>float\<close> standard error over a \<open>float\<close> value of zero raises
  ZeroDivisionError, which the \<open>try\<close> block does not catch.
\<close>

theorem overview_entry_relative_stderr:
  assumes "map_of mapper (parameter_name p) = Some label"
  shows "(parameter_stderr p = None \<longrightarrow>
            overview_entry mapper p =
              Inr (label, [Fixed 5 (num_val (parameter_value p)), Text '' +/- '',
                           Fixed 2 NaN, Text ''%'']))
       \<and> (\<forall>e. parameter_stderr p = Some (NpFloat e) \<longrightarrow>
            overview_entry mapper p =
              Inr (label, [Fixed 5 (num_val (parameter_value p)), Text '' +/- '',
                           Fixed 2 (fmul (fdiv e (num_val (parameter_value p))) (Fin 100)),
                           Text ''%'']))
       \<and> (\<forall>e. parameter_stderr p = Some (NpFloat e) \<and> num_val (parameter_value p) = Fin 0
               \<and> is_fin e \<and> e \<noteq> Fin 0 \<longrightarrow>
            fmul (fdiv e (num_val (parameter_value p))) (Fin 100) \<in> {PInf, NInf})
       \<and> (\<forall>e. parameter_stderr p = Some (PyFloat e) \<and> parameter_value p = PyFloat (Fin 0) \<longrightarrow>
            overview_entry mapper p = Inl ZeroDivisionError)"
proof (intro conjI allI impI)
  assume "parameter_stderr p = None"
  then show "overview_entry mapper p =
      Inr (label, [Fixed 5 (num_val (parameter_value p)), Text '' +/- '',
                   Fixed 2 NaN, Text ''%''])"
    using assms by (simp add: overview_entry_def percentual_stderr_of_def)
next
  fix e assume "parameter_stderr p = Some (NpFloat e)"
  then show "overview_entry mapper p =
      Inr (label, [Fixed 5 (num_val (parameter_value p)), Text '' +/- '',
                   Fixed 2 (fmul (fdiv e (num_val (parameter_value p))) (Fin 100)),
                   Text ''%''])"
    using assms by (simp add: overview_entry_def percentual_stderr_of_def)
next
  fix e assume "parameter_stderr p = Some (NpFloat e) \<and> num_val (parameter_value p) = Fin 0
               \<and> is_fin e \<and> e \<noteq> Fin 0"
  then show "fmul (fdiv e (num_val (parameter_value p))) (Fin 100) \<in> {PInf, NInf}"
    using fdiv_by_zero[of e] by simp
next
  fix e assume "parameter_stderr p = Some (PyFloat e) \<and> parameter_value p = PyFloat (Fin 0)"
  then show "overview_entry mapper p = Inl ZeroDivisionError"
    using assms by (simp add: overview_entry_def percentual_stderr_of_def)
qed

theorem overview_entry_relative_stderr_witness:
  "overview_entry example_mapper
     \<lparr> parameter_name = ''Km'', parameter_value = NpFloat (Fin 2), parameter_stderr = None \<rparr>
   = Inr (''Km [mM]'', [Fixed 5 (Fin 2), Text '' +/- '', Fixed 2 NaN, Text ''%''])
   \<and> overview_entry example_mapper
     \<lparr> parameter_name = ''Km'', parameter_value = NpFloat (Fin 2),
       parameter_stderr = Some (NpFloat (Fin 1)) \<rparr>
   = Inr (''Km [mM]'', [Fixed 5 (Fin 2), Text '' +/- '', Fixed 2 (Fin 50), Text ''%''])"
proof -
  let ?p = "\<lparr> parameter_name = ''Km'', parameter_value = NpFloat (Fin 2),
              parameter_stderr = None \<rparr>"
  let ?q = "\<lparr> parameter_name = ''Km'', parameter_value = NpFloat (Fin 2),
              parameter_stderr = Some (NpFloat (Fin 1)) \<rparr>"
  have a: "map_of example_mapper (parameter_name ?p) = Some ''Km [mM]''"
    by code_simp
  have b: "map_of example_mapper (parameter_name ?q) = Some ''Km [mM]''"
    by code_simp
  from overview_entry_relative_stderr[OF a] overview_entry_relative_stderr[OF b]
  show ?thesis by simp
qed

text \<open>
  The claim as it is written fails for a fitted value of exactly zero: with
  \<open>numpy.float64\<close> operands the percentage is formatted as an infinity, not as NaN; with
  \<open>float\<close> operands the division raises ZeroDivisionError and the exception propagates.
\<close>

theorem overview_entry_zero_value_counterexample:
  "parameter_mapper example_estimator = Inr example_mapper
   \<and> overview_entry example_mapper
       \<lparr> parameter_name = ''Km'', parameter_value = NpFloat (Fin 0),
         parameter_stderr = Some (NpFloat (Fin 1)) \<rparr>
     = Inr (''Km [mM]'', [Fixed 5 (Fin 0), Text '' +/- '', Fixed 2 PInf, Text ''%''])
   \<and> overview_entry example_mapper
       \<lparr> parameter_name = ''Km'', parameter_value = PyFloat (Fin 0),
         parameter_stderr = Some (PyFloat (Fin 1)) \<rparr>
     = Inl ZeroDivisionError"
  by code_simp

subsection \<open>The initial guesses\<close>

lemma fmax_max: "\<not> is_nan a \<Longrightarrow> \<not> is_nan b \<Longrightarrow> fmax a b = max a b"
  by (cases a; cases b) (auto simp: max_def less_eq_fval_def)

lemma is_nan_iff: "is_nan x \<longleftrightarrow> x = NaN"
  by (cases x) simp_all

lemma foldl_fmax_all_nan: "list_all is_nan ys \<Longrightarrow> foldl fmax acc ys = acc"
  by (induction ys arbitrary: acc) (auto simp: is_nan_iff, (case_tac acc; simp)+)


lemma fmax_cases:
  "(is_nan a \<and> fmax a b = b) \<or> (\<not> is_nan a \<and> is_nan b \<and> fmax a b = a)
   \<or> (\<not> is_nan a \<and> \<not> is_nan b \<and> fmax a b = max a b)"
  by (cases a; cases b) (auto simp: max_def less_eq_fval_def)

lemma foldl_fmax_greatest:
  "(if \<forall>z \<in> set (acc # ys). is_nan z then foldl fmax acc ys = NaN
    else \<not> is_nan (foldl fmax acc ys) \<and> foldl fmax acc ys \<in> set (acc # ys)
       \<and> (\<forall>z \<in> set (acc # ys). \<not> is_nan z \<longrightarrow> z \<le> foldl fmax acc ys))"
proof (induction ys arbitrary: acc)
  case Nil
  then show ?case by (simp add: is_nan_iff)
next
  case (Cons y ys)
  from fmax_cases[of acc y] Cons[of "fmax acc y"] show ?case
    by (auto simp: is_nan_iff max_def split: if_splits)
qed

lemma maximum_of_eq:
  assumes "keep m" and "m \<in> set xs" and "\<forall>z \<in> set xs. keep z \<longrightarrow> z \<le> m"
  shows "maximum_of keep xs = m"
proof -
  from assms have ne: "filter keep xs \<noteq> []" by (auto simp: filter_empty_conv)
  then obtain y ys where f: "filter keep xs = y # ys" by (cases "filter keep xs") auto
  have "Max (set (filter keep xs)) = m"
    using assms by (intro Max_eqI) auto
  with f show ?thesis by (simp add: maximum_of_def)
qed

lemma nanmax_nan_maximum: "xs \<noteq> [] \<Longrightarrow> nanmax xs = Inr (nan_maximum xs)"
proof -
  assume "xs \<noteq> []"
  then obtain x rest where xs: "xs = x # rest" by (cases xs) auto
  let ?m = "foldl fmax x rest"
  have "?m = nan_maximum (x # rest)"
  proof (cases "\<forall>z \<in> set (x # rest). is_nan z")
    case True
    then have "filter (\<lambda>x. \<not> is_nan x) (x # rest) = []" by (auto simp: filter_empty_conv)
    moreover from True foldl_fmax_greatest[of x rest] have "?m = NaN" by simp
    ultimately show ?thesis by (simp add: nan_maximum_def maximum_of_def)
  next
    case False
    with foldl_fmax_greatest[of x rest]
    have "\<not> is_nan ?m" "?m \<in> set (x # rest)"
      "\<forall>z \<in> set (x # rest). \<not> is_nan z \<longrightarrow> z \<le> ?m"
      by (simp_all del: foldl_Cons set_simps)
    then show ?thesis
      unfolding nan_maximum_def by (intro maximum_of_eq[symmetric]) auto
  qed
  then show ?thesis by (simp add: nanmax_def xs)
qed


lemma length_np_diff: "length (np_diff a) = length a - 1"
  by (simp add: np_diff_def)

lemma nth_np_diff: "j + 1 < length a \<Longrightarrow> np_diff a ! j = fsub (a ! (j + 1)) (a ! j)"
  by (simp add: np_diff_def nth_tl)

lemma row_rates:
  assumes "length row = length grid"
  shows "map (fabs \<circ> (\<lambda>(x, t). fdiv x t)) (zip (np_diff row) (np_diff grid))
       = map (interval_rate grid row) [0..<length grid - 1]"
  using assms
  by (intro nth_equalityI) (simp_all add: length_np_diff nth_np_diff interval_rate_def)

lemma calculate_rates_aligned:
  assumes ne: "substrate self \<noteq> []"
    and cols: "\<forall>row \<in> set (substrate self). length row = length (exp_time (data self))"
  shows "calculate_rates self = Inr (raw_rates self)"
proof -
  let ?grid = "exp_time (data self)"
  from ne obtain r rs where s: "substrate self = r # rs" by (cases "substrate self") auto
  with cols have "length r = length ?grid" by simp
  then have c: "columns_of (map np_diff (substrate self)) = length (np_diff ?grid)"
    by (simp add: columns_of_def s length_np_diff)
  have "map (map fabs) (map (\<lambda>row. map (\<lambda>(x, t). fdiv x t) (zip row (np_diff ?grid)))
                            (map np_diff (substrate self)))
      = raw_rates self"
    unfolding raw_rates_def using cols by (simp add: row_rates)
  with c show ?thesis
    by (simp add: calculate_rates_def broadcast_divide_def Let_def)
qed

lemma zip_replicate_map:
  "map (\<lambda>(r, e). f r e) (zip xs (replicate (length xs) e)) = map (\<lambda>r. f r e) xs"
  by (induction xs) simp_all

lemma tiled_quotients:
  assumes "length enz = length rates" and "\<forall>row \<in> set rates. length row = c"
  shows "map (\<lambda>(rate_row, enzyme_row). map (\<lambda>(r, e). fdiv r e) (zip rate_row enzyme_row))
             (zip rates (map (\<lambda>e. replicate c e) enz))
       = map (\<lambda>i. map (\<lambda>r. fdiv r (enz ! i)) (rates ! i)) [0..<length rates]"
proof (rule nth_equalityI)
  show "length (map (\<lambda>(rate_row, enzyme_row). map (\<lambda>(r, e). fdiv r e) (zip rate_row enzyme_row))
             (zip rates (map (\<lambda>e. replicate c e) enz)))
       = length (map (\<lambda>i. map (\<lambda>r. fdiv r (enz ! i)) (rates ! i)) [0..<length rates])"
    using assms by simp
next
  fix i
  assume "i < length (map (\<lambda>(rate_row, enzyme_row).
                map (\<lambda>(r, e). fdiv r e) (zip rate_row enzyme_row))
             (zip rates (map (\<lambda>e. replicate c e) enz)))"
  then have i: "i < length rates" using assms by simp
  with assms have "length (rates ! i) = c" by simp
  with zip_replicate_map[of fdiv "rates ! i" "enz ! i"]
  have "map (\<lambda>(r, e). fdiv r e) (zip (rates ! i) (replicate c (enz ! i)))
      = map (\<lambda>r. fdiv r (enz ! i)) (rates ! i)"
    by simp
  with i assms
  show "map (\<lambda>(rate_row, enzyme_row). map (\<lambda>(r, e). fdiv r e) (zip rate_row enzyme_row))
             (zip rates (map (\<lambda>e. replicate c e) enz)) ! i
       = map (\<lambda>i. map (\<lambda>r. fdiv r (enz ! i)) (rates ! i)) [0..<length rates] ! i"
    by simp
qed

lemma calculate_kcat_aligned:
  assumes al: "rows_aligned self"
    and ne: "substrate self \<noteq> []"
    and cols: "\<forall>row \<in> set (substrate self). length row = length (exp_time (data self))"
  shows "calculate_kcat self = nanmax (concat (rate_quotients self))"
proof -
  let ?T = "length (exp_time (data self))"
  let ?rates = "raw_rates self"
  have n: "length ?rates = length (substrate self)" by (simp add: raw_rates_def)
  have rl: "\<forall>row \<in> set ?rates. length row = ?T - 1"
    by (auto simp: raw_rates_def)
  from ne have c: "columns_of ?rates = ?T - 1"
    by (cases "substrate self") (simp_all add: columns_of_def raw_rates_def)
  from al have e: "length (enzyme self) = length ?rates"
    by (simp add: rows_aligned_def n)
  then have tile: "enzyme_tile (enzyme self) ?rates
                   = Inr (map (\<lambda>e. replicate (?T - 1) e) (enzyme self))"
    by (simp add: enzyme_tile_def c)
  have "map (\<lambda>(rate_row, enzyme_row). map (\<lambda>(r, e). fdiv r e) (zip rate_row enzyme_row))
            (zip ?rates (map (\<lambda>e. replicate (?T - 1) e) (enzyme self)))
      = rate_quotients self"
    unfolding tiled_quotients[OF e rl] by (simp add: rate_quotients_def n)
  with calculate_rates_aligned[OF ne cols] tile show ?thesis
    by (simp add: calculate_kcat_def)
qed

lemma calculate_Km_aligned:
  assumes ne: "substrate self \<noteq> []"
    and cols: "\<forall>row \<in> set (substrate self). length row = length (exp_time (data self))"
  shows "calculate_Km self
       = (case nanmax (concat (raw_rates self)) of Inl e \<Rightarrow> Inl e | Inr m \<Rightarrow> Inr (fdiv m (Fin 2)))"
  using calculate_rates_aligned[OF ne cols] by (simp add: calculate_Km_def)


lemma length_enzyme_of:
  "length (enzyme_of experiment) = length (measurement_data_of experiment)"
proof -
  have "length (concat (map (\<lambda>m. map (\<lambda>replica. enzyme_conc m) (data_m m)) ms))
      = length (concat (map (\<lambda>m. map values_r (data_m m)) ms))" for ms
    by (induction ms) simp_all
  then show ?thesis
    unfolding enzyme_of_def measurement_data_of_def by blast
qed

lemma length_inhibitor_of:
  "length (inhibitor_of experiment) = length (measurement_data_of experiment)"
proof -
  have "length (concat (map (\<lambda>m. map (\<lambda>replica. case inhibitor_conc m of
                                                   Some c \<Rightarrow> c | None \<Rightarrow> Fin 0) (data_m m)) ms))
      = length (concat (map (\<lambda>m. map values_r (data_m m)) ms))" for ms
    by (induction ms) simp_all
  then show ?thesis
    unfolding inhibitor_of_def measurement_data_of_def by blast
qed

lemma initialize_rows_aligned:
  assumes "initialize_measurement_data experiment = Inr self"
  shows "rows_aligned self \<and> substrate self \<noteq> [] \<and> data self = experiment"
proof -
  from assms obtain columns where
    c: "measurement_columns (measurement_data_of experiment) = Inr columns"
    by (auto simp: initialize_measurement_data_def Let_def split: sum.splits)
  then have ne: "measurement_data_of experiment \<noteq> []"
    by (auto simp: measurement_columns_def)
  from assms c show ?thesis
    using ne length_initial_substrate_of[of "experiment"] length_enzyme_of[of "experiment"]
      length_inhibitor_of[of "experiment"]
    by (auto simp: initialize_measurement_data_def Let_def rows_aligned_def
        length_calculate_substrate length_calculate_product
        calculate_substrate_def calculate_product_def split: if_splits)
qed

lemma nanmax_result: "nanmax xs = Inr m \<Longrightarrow> m = nan_maximum xs"
  using nanmax_nan_maximum[of xs] by (cases xs) (auto simp: nanmax_def)

text \<open>
  Claim C6, as the code has it. For an estimator built from an experiment whose traces have
  the length of the raw time grid: the rates are \<open>|\<Delta>substrate / \<Delta>time|\<close> for every row and
  every interval of the raw time grid; the catalytic-rate guess is the greatest of the rates
  divided by the enzyme concentration of their row, and the Michaelis-constant guess is half
  the greatest rate, where \<open>np.nanmax\<close> leaves out the values that are NaN and no others: an
  infinite value is not left out.
\<close>

theorem initial_guesses:
  assumes built: "init experiment = Inr self"
    and cols: "\<forall>row \<in> set (substrate self). length row = length (exp_time experiment)"
  shows "calculate_rates self = Inr (raw_rates self)
       \<and> initial_kcat self = nan_maximum (concat (rate_quotients self))
       \<and> initial_Km self = fdiv (nan_maximum (concat (raw_rates self))) (Fin 2)"
proof -
  from built obtain nd kcat Km where
    nd: "initialize_measurement_data experiment = Inr nd"
    and k: "calculate_kcat nd = Inr kcat"
    and m: "calculate_Km nd = Inr Km"
    and self: "self = NormalizedData.extend nd \<lparr> initial_kcat = kcat, initial_Km = Km \<rparr>"
    by (auto simp: init_def split: sum.splits)
  from initialize_rows_aligned[OF nd]
  have al: "rows_aligned nd" and ne: "substrate nd \<noteq> []" and d: "data nd = experiment"
    by simp_all
  have same: "substrate self = substrate nd" "enzyme self = enzyme nd" "data self = data nd"
    "initial_kcat self = kcat" "initial_Km self = Km"
    by (simp_all add: self NormalizedData.extend_def)
  then have eq: "raw_rates self = raw_rates nd" "rate_quotients self = rate_quotients nd"
    "calculate_rates self = calculate_rates nd"
    by (simp_all add: raw_rates_def rate_quotients_def calculate_rates_def)
  from cols same d have cols': "\<forall>row \<in> set (substrate nd). length row = length (exp_time (data nd))"
    by simp
  from k calculate_kcat_aligned[OF al ne cols']
  have "kcat = nan_maximum (concat (rate_quotients nd))"
    by (simp add: nanmax_result)
  moreover from m calculate_Km_aligned[OF ne cols']
  have "Km = fdiv (nan_maximum (concat (raw_rates nd))) (Fin 2)"
    by (auto split: sum.splits dest: nanmax_result)
  ultimately show ?thesis
    using calculate_rates_aligned[OF ne cols'] same eq by simp
qed

theorem initial_guesses_witness:
  "init reordered_experiment = Inr reordered_estimator
   \<and> raw_rates reordered_estimator = [[Fin 4, Fin 1], [Fin 2, Fin 1]]
   \<and> initial_kcat reordered_estimator = Fin 4
   \<and> initial_Km reordered_estimator = Fin 2"
proof -
  have b: "init reordered_experiment = Inr reordered_estimator" by code_simp
  have c: "\<forall>row \<in> set (substrate reordered_estimator).
             length row = length (exp_time reordered_experiment)"
    by code_simp
  have r: "raw_rates reordered_estimator = [[Fin 4, Fin 1], [Fin 2, Fin 1]]" by code_simp
  have q: "nan_maximum (concat (rate_quotients reordered_estimator)) = Fin 4" by code_simp
  have h: "fdiv (nan_maximum (concat (raw_rates reordered_estimator))) (Fin 2) = Fin 2"
    by code_simp
  from initial_guesses[OF b c] b r q h show ?thesis by simp
qed

text \<open>
  The claim as it is written fails when a row has no enzyme: its rates divided by zero are
  infinite, and the guess is that infinity, where the greatest finite value is 2.
\<close>

theorem initial_guesses_counterexample:
  "init example_experiment = Inr example_estimator
   \<and> concat (rate_quotients example_estimator) = [Fin 2, Fin 1, PInf, PInf]
   \<and> finite_maximum (concat (rate_quotients example_estimator)) = Fin 2
   \<and> initial_kcat example_estimator = PInf"
  by code_simp

subsection \<open>Subsetting and memory\<close>

lemma elements_append: "buf_id a < length mem \<Longrightarrow> elements (mem @ bs) a = elements mem a"
  by (simp add: elements_def nth_append)

lemma rows_of_append: "buf_id a < length mem \<Longrightarrow> rows_of (mem @ bs) a = rows_of mem a"
  by (simp add: rows_of_def elements_append)

lemma load_append: "separate_arrays mem refs \<Longrightarrow> load (mem @ bs) refs = load mem refs"
  by (simp add: separate_arrays_def load_def elements_append rows_of_append)

lemma elements_write_other:
  assumes "write_element mem a k v = Inr mem'" and "buf_id b \<noteq> buf_id a"
  shows "elements mem' b = elements mem b"
  using assms by (auto simp: write_element_def elements_def split: if_splits)

lemma rows_of_write_other:
  assumes "write_element mem a k v = Inr mem'" and "buf_id b \<noteq> buf_id a"
  shows "rows_of mem' b = rows_of mem b"
  using elements_write_other[OF assms] by (simp add: rows_of_def)

lemma elements_write_window:
  assumes "write_element mem \<lparr> buf_id = buf_id a, buf_offset = buf_offset a + lo, shape = shp \<rparr>
             k v = Inr mem'"
  shows "elements mem' a = (elements mem a)[lo + k := v]"
  using assms
  by (auto simp: write_element_def elements_def take_update_swap drop_update_swap add.assoc
      split: if_splits)

text \<open>The memory and the arrays that subsetting returns.\<close>

lemma subset_data_st_result:
  assumes "subset_data_st mem refs sel start stop = Inr (mem', arrays)"
  shows "\<exists>bs. mem' = mem @ bs"
    and "select_array New_time arrays =
           \<lparr> buf_id = buf_id (time_st refs),
             buf_offset = buf_offset (time_st refs)
                          + fst (slice_window start stop (size_of (time_st refs))),
             shape = [snd (slice_window start stop (size_of (time_st refs)))] \<rparr>"
    and "which \<noteq> New_time \<Longrightarrow> length mem \<le> buf_id (select_array which arrays)"
    and "which \<noteq> New_time \<Longrightarrow> buf_id (select_array which arrays) < length mem'"
  using assms
  by (cases which; auto simp: subset_data_st_def alloc_def Let_def
      split: sum.splits prod.splits)+


lemma load_write_fresh:
  assumes sep: "separate_arrays mem refs"
    and w: "write_element (mem @ bs) a k v = Inr mem'"
    and fresh: "length mem \<le> buf_id a"
  shows "load mem' refs = load mem refs"
proof -
  from sep fresh have d: "buf_id (time_st refs) \<noteq> buf_id a"
    "buf_id (initial_substrate_st refs) \<noteq> buf_id a" "buf_id (enzyme_st refs) \<noteq> buf_id a"
    "buf_id (inhibitor_st refs) \<noteq> buf_id a" "buf_id (substrate_st refs) \<noteq> buf_id a"
    "buf_id (product_st refs) \<noteq> buf_id a"
    by (auto simp: separate_arrays_def)
  have "load mem' refs = load (mem @ bs) refs"
    by (simp add: load_def elements_write_other[OF w] rows_of_write_other[OF w] d)
  with load_append[OF sep] show ?thesis by simp
qed

lemma load_write_time_window:
  assumes sep: "separate_arrays mem refs"
    and w: "write_element (mem @ bs)
              \<lparr> buf_id = buf_id (time_st refs), buf_offset = buf_offset (time_st refs) + lo,
                shape = shp \<rparr> k v = Inr mem'"
  shows "load mem' refs = (load mem refs)\<lparr> time := (time (load mem refs))[lo + k := v] \<rparr>"
proof -
  have other: "elements mem' b = elements (mem @ bs) b \<and> rows_of mem' b = rows_of (mem @ bs) b"
    if "buf_id b \<noteq> buf_id (time_st refs)" for b
    using elements_write_other[OF w, of b] rows_of_write_other[OF w, of b] that by simp
  from sep have d: "buf_id (initial_substrate_st refs) \<noteq> buf_id (time_st refs)"
    "buf_id (enzyme_st refs) \<noteq> buf_id (time_st refs)"
    "buf_id (inhibitor_st refs) \<noteq> buf_id (time_st refs)"
    "buf_id (substrate_st refs) \<noteq> buf_id (time_st refs)"
    "buf_id (product_st refs) \<noteq> buf_id (time_st refs)"
    by (auto simp: separate_arrays_def)
  have "load mem' refs
      = (load (mem @ bs) refs)\<lparr> time := (time (load (mem @ bs) refs))[lo + k := v] \<rparr>"
    by (simp add: load_def other[OF d(1)] other[OF d(2)] other[OF d(3)] other[OF d(4)]
        other[OF d(5)] elements_write_window[OF w])
  with load_append[OF sep] show ?thesis by simp
qed

text \<open>
  Claim C9, as the code has it. Subsetting itself leaves the arrays of the normalised dataset
  as they are. The substrate, product, enzyme, initial-substrate and inhibitor arrays it
  returns are in buffers of their own: an assignment to one of their elements does not
  change the dataset. The time array it returns is a window on the buffer of the dataset's
  time array: an assignment to its element \<open>k\<close> changes the element of the dataset's time
  array at the start of the window plus \<open>k\<close>.
\<close>

theorem subset_copies_and_time_view:
  assumes sep: "separate_arrays mem refs"
  shows "(\<forall>mem' arrays. subset_data_st mem refs sel start stop = Inr (mem', arrays) \<longrightarrow>
            load mem' refs = load mem refs
            \<and> buf_id (select_array New_time arrays) = buf_id (time_st refs))
       \<and> (\<forall>which nd. which \<noteq> New_time
              \<and> dataset_after_write mem refs sel start stop which k v = Inr nd \<longrightarrow>
            nd = load mem refs)
       \<and> (\<forall>nd. dataset_after_write mem refs sel start stop New_time k v = Inr nd \<longrightarrow>
            nd = (load mem refs)
                   \<lparr> time := (time (load mem refs))
                       [fst (slice_window start stop (size_of (time_st refs))) + k := v] \<rparr>)"
proof (intro conjI allI impI)
  fix mem' arrays
  assume s: "subset_data_st mem refs sel start stop = Inr (mem', arrays)"
  from subset_data_st_result(1)[OF s] load_append[OF sep]
  show "load mem' refs = load mem refs" by auto
  from subset_data_st_result(2)[OF s]
  show "buf_id (select_array New_time arrays) = buf_id (time_st refs)" by simp
next
  fix which nd
  assume a: "which \<noteq> New_time
             \<and> dataset_after_write mem refs sel start stop which k v = Inr nd"
  then obtain mem' arrays mem'' where
    s: "subset_data_st mem refs sel start stop = Inr (mem', arrays)"
    and w: "write_element mem' (select_array which arrays) k v = Inr mem''"
    and nd: "nd = load mem'' refs"
    by (auto simp: dataset_after_write_def split: sum.splits)
  from subset_data_st_result(1)[OF s] obtain bs where m: "mem' = mem @ bs" ..
  from a subset_data_st_result(3)[OF s, of which]
  have "length mem \<le> buf_id (select_array which arrays)" by simp
  from load_write_fresh[OF sep w[unfolded m] this] nd
  show "nd = load mem refs" by simp
next
  fix nd
  assume "dataset_after_write mem refs sel start stop New_time k v = Inr nd"
  then obtain mem' arrays mem'' where
    s: "subset_data_st mem refs sel start stop = Inr (mem', arrays)"
    and w: "write_element mem' (select_array New_time arrays) k v = Inr mem''"
    and nd: "nd = load mem'' refs"
    by (auto simp: dataset_after_write_def split: sum.splits)
  from subset_data_st_result(1)[OF s] obtain bs where m: "mem' = mem @ bs" ..
  from load_write_time_window[OF sep w[unfolded m subset_data_st_result(2)[OF s]]] nd
  show "nd = (load mem refs)
               \<lparr> time := (time (load mem refs))
                   [fst (slice_window start stop (size_of (time_st refs))) + k := v] \<rparr>"
    by simp
qed

theorem subset_copies_and_time_view_witness:
  "separate_arrays example_memory example_arrays
   \<and> load example_memory example_arrays = example_normalized
   \<and> dataset_after_write example_memory example_arrays None (Some 1) None
        New_substrate 0 (Fin 99) = Inr (load example_memory example_arrays)
   \<and> dataset_after_write example_memory example_arrays None (Some 1) None
        New_time 0 (Fin 99)
      = Inr ((load example_memory example_arrays)\<lparr> time := [Fin 0, Fin 99, Fin 2] \<rparr>)"
proof -
  have sep: "separate_arrays example_memory example_arrays" by code_simp
  have a: "dataset_after_write example_memory example_arrays None (Some 1) None
             New_substrate 0 (Fin 99) = Inr example_normalized"
    by code_simp
  have b: "dataset_after_write example_memory example_arrays None (Some 1) None
             New_time 0 (Fin 99) = Inr (example_normalized\<lparr> time := [Fin 0, Fin 99, Fin 2] \<rparr>)"
    by code_simp
  from subset_copies_and_time_view[OF sep, of None "Some 1" None 0 "Fin 99"] a
  have l: "example_normalized = load example_memory example_arrays"
    by blast
  from subset_copies_and_time_view[OF sep, of None "Some 1" None 0 "Fin 99"] b
  have "example_normalized\<lparr> time := [Fin 0, Fin 99, Fin 2] \<rparr>
      = (load example_memory example_arrays)
          \<lparr> time := (time (load example_memory example_arrays))
              [fst (slice_window (Some 1) None (size_of (time_st example_arrays))) + 0
                 := Fin 99] \<rparr>"
    by blast
  with sep a b l show ?thesis by simp
qed

text \<open>
  The claim as it is written fails for the time array: after subsetting without any
  argument, an assignment to the first element of the returned time array changes the time
  array of the dataset.
\<close>

theorem subset_time_view_counterexample:
  "store example_normalized = (example_memory, example_arrays)
   \<and> load example_memory example_arrays = example_normalized
   \<and> time example_normalized = [Fin 0, Fin 1, Fin 2]
   \<and> dataset_after_write example_memory example_arrays None None None New_time 0 (Fin 99)
       = Inr (example_normalized\<lparr> time := [Fin 99, Fin 1, Fin 2] \<rparr>)"
  by code_simp

end
